theory Spec2Isabelle
  imports Complex_Main
begin

section \<open>The domino model of expectiminimax\_solo.py\<close>

text \<open>
  The Python program keeps every tile as a mutable object (class \<open>Pedra\<close>) that the hand,
  the unseen pool, the board ends and the move lists of all states share by reference, and
  the transition function writes the orientation field of such objects. The embedding
  therefore has an explicit store: a tile is named by its address, the store maps addresses
  to the current field values, and every function that writes a field returns the new store.
  The two list fields of a state are Python lists; the one place that changes such a list
  in place (the sort inside \<open>compute_utility\<close>) hands the changed list back in the state
  that the function returns beside its result.
  Python floats are idealised as real numbers, with the infinities and NaN added.
\<close>

subsection \<open>Errors and tiles\<close>

datatype error = ValueError | AttributeError | TypeError | ZeroDivisionError | IndexError

record Pedra =
  valor :: "int \<times> int"
  position :: int

type_synonym heap = "nat \<Rightarrow> Pedra"

text \<open>
  The tile of a move is a tile of the store, or the object \<open>Pedra(-1, -1, -1)\<close> that
  \<open>moves\<close> and \<open>chances\<close> construct on the spot for a pass. Such a fresh object is in no
  list of any state and \<open>result\<close> writes to a move's tile only when its first pip is not
  -1, so it is a constant here.
\<close>

datatype pedra_ref = Obj nat | Passe

definition passe_pedra :: Pedra where
  "passe_pedra = \<lparr>valor = (-1, -1), position = -1\<rparr>"

fun deref :: "heap \<Rightarrow> pedra_ref \<Rightarrow> Pedra" where
  "deref h (Obj a) = h a"
| "deref h Passe = passe_pedra"

type_synonym move = "pedra_ref \<times> int"

text \<open>\<open>Pedra.__eq__\<close>: the same unordered pair of pips; the orientation is not compared.\<close>

definition Pedra_eq :: "Pedra \<Rightarrow> Pedra \<Rightarrow> bool" where
  "Pedra_eq self other \<longleftrightarrow>
     (fst (valor self) = fst (valor other) \<and> snd (valor self) = snd (valor other))
     \<or> (fst (valor self) = snd (valor other) \<and> snd (valor self) = fst (valor other))"

text \<open>\<open>Pedra.igual\<close>, with its three tests in the order of the source.\<close>

definition igual :: "Pedra \<Rightarrow> Pedra \<Rightarrow> bool" where
  "igual self p =
     (if position p = -1 \<and>
         (fst (valor self) = fst (valor p) \<or> snd (valor self) = snd (valor p)
          \<or> snd (valor self) = fst (valor p) \<or> snd (valor self) = fst (valor p))
      then True
      else if position p = 0 \<and>
         (snd (valor self) = fst (valor p) \<or> fst (valor self) = fst (valor p))
      then True
      else if position p = 1 \<and>
         (snd (valor self) = snd (valor p) \<or> fst (valor self) = snd (valor p))
      then True
      else False)"

text \<open>A board end is \<open>None\<close> or a tile; \<open>pedra.igual(None)\<close> raises AttributeError.\<close>

fun igual_ponta :: "heap \<Rightarrow> Pedra \<Rightarrow> nat option \<Rightarrow> error + bool" where
  "igual_ponta h self None = Inl AttributeError"
| "igual_ponta h self (Some p) = Inr (igual self (h p))"

text \<open>
  The match relation in the words of the specification, to compare \<open>igual\<close> with: a tile
  matches an end when one of its two pips equals a value that the end shows. An end tile
  with orientation 0 shows its first pip and one with orientation 1 its second (these are
  the pips that \<open>igual\<close> compares with, and \<open>result\<close> gives a tile the orientation of the
  pip that stays open); the first tile on the board, not yet oriented, shows both.
\<close>

definition casa :: "Pedra \<Rightarrow> Pedra \<Rightarrow> bool" where
  "casa self p =
     (if position p = -1 then
        fst (valor self) = fst (valor p) \<or> fst (valor self) = snd (valor p)
        \<or> snd (valor self) = fst (valor p) \<or> snd (valor self) = snd (valor p)
      else if position p = 0 then
        fst (valor self) = fst (valor p) \<or> snd (valor self) = fst (valor p)
      else if position p = 1 then
        fst (valor self) = snd (valor p) \<or> snd (valor self) = snd (valor p)
      else False)"

definition getValor :: "Pedra \<Rightarrow> int" where
  "getValor p = fst (valor p) + snd (valor p)"

subsection \<open>Game states\<close>

record GameState =
  to_move :: int
  pedras :: "nat list"
  pedras_restantes :: "nat list"
  ponta1 :: "nat option"
  ponta2 :: "nat option"
  moves :: "move list"
  utility :: int

subsection \<open>The move generator\<close>

text \<open>
  The loop of \<open>Domino.moves\<close> over one list of tiles, with the list \<open>moves\<close> and the
  counter \<open>i\<close> as accumulators. The source writes the loop twice, over \<open>pedras\<close> and
  over \<open>pedras_restantes\<close>, with the same body.
\<close>

fun moves_loop ::
  "heap \<Rightarrow> nat list \<Rightarrow> nat option \<Rightarrow> nat option \<Rightarrow> move list \<Rightarrow> nat
     \<Rightarrow> error + (move list \<times> nat)" where
  "moves_loop h [] p1 p2 mv i = Inr (mv, i)"
| "moves_loop h (pedra # rest) p1 p2 mv i =
     (case p1 of
        None \<Rightarrow> moves_loop h rest p1 p2 (mv @ [(Obj pedra, -1)]) i
      | Some a \<Rightarrow>
          (if igual (h pedra) (h a)
           then moves_loop h rest p1 p2 (mv @ [(Obj pedra, 0)]) (i + 1)
           else (case igual_ponta h (h pedra) p2 of
                   Inl e \<Rightarrow> Inl e
                 | Inr b \<Rightarrow>
                     (if b then moves_loop h rest p1 p2 (mv @ [(Obj pedra, 1)]) (i + 1)
                      else moves_loop h rest p1 p2 mv i))))"

definition Domino_moves ::
  "heap \<Rightarrow> int \<Rightarrow> nat list \<Rightarrow> nat list \<Rightarrow> nat option \<Rightarrow> nat option \<Rightarrow> int
     \<Rightarrow> error + move list" where
  "Domino_moves h tm hand pool p1 p2 player =
     (case moves_loop h (if tm = player then hand else pool) p1 p2 [] 0 of
        Inl e \<Rightarrow> Inl e
      | Inr (mv, i) \<Rightarrow> Inr (if i = 0 then mv @ [(Passe, -1)] else mv))"

text \<open>
  Closed forms to compare the loop with. \<open>jogadas\<close>: one move for each tile that
  \<open>igual\<close> accepts for an end, at end 1 if it accepts it for end 1 and at end 2
  otherwise. \<open>jogadas_casa\<close>: the same with the match relation of the specification.
  \<open>jogadas_por_ponta\<close> follows the words of the specification: one move for each end
  that the tile matches.
\<close>

definition jogadas :: "heap \<Rightarrow> nat \<Rightarrow> nat \<Rightarrow> nat list \<Rightarrow> move list" where
  "jogadas h e1 e2 xs =
     concat (map (\<lambda>t. if igual (h t) (h e1) then [(Obj t, 0)]
                       else if igual (h t) (h e2) then [(Obj t, 1)] else []) xs)"

definition jogadas_casa :: "heap \<Rightarrow> nat \<Rightarrow> nat \<Rightarrow> nat list \<Rightarrow> move list" where
  "jogadas_casa h e1 e2 xs =
     concat (map (\<lambda>t. if casa (h t) (h e1) then [(Obj t, 0)]
                       else if casa (h t) (h e2) then [(Obj t, 1)] else []) xs)"

definition jogadas_por_ponta :: "heap \<Rightarrow> nat \<Rightarrow> nat \<Rightarrow> nat list \<Rightarrow> move list" where
  "jogadas_por_ponta h e1 e2 xs =
     concat (map (\<lambda>t. (if casa (h t) (h e1) then [(Obj t, 0)] else [])
                        @ (if casa (h t) (h e2) then [(Obj t, 1)] else [])) xs)"

subsection \<open>The utility marker\<close>

text \<open>
  The two scans at the head of the pass branch of \<open>compute_utility\<close>:
  \<open>p.igual(ponta1) or p.igual(ponta2)\<close> for each tile of a list, end 1 known to be set.
\<close>

fun algum_igual :: "heap \<Rightarrow> nat list \<Rightarrow> nat \<Rightarrow> nat option \<Rightarrow> error + bool" where
  "algum_igual h [] a p2 = Inr False"
| "algum_igual h (p # ps) a p2 =
     (if igual (h p) (h a) then Inr True
      else (case igual_ponta h (h p) p2 of
              Inl e \<Rightarrow> Inl e
            | Inr b \<Rightarrow> (if b then Inr True else algum_igual h ps a p2)))"

text \<open>
  \<open>compute_utility\<close> returns the marker and, first component, the list
  \<open>pedras_restantes\<close> as the call leaves it: the blocked branch sorts the caller's list
  in place by pip sum (\<open>list.sort\<close> is stable, as \<open>sort_key\<close> is).
\<close>

definition compute_utility ::
  "heap \<Rightarrow> int \<Rightarrow> nat list \<Rightarrow> nat list \<Rightarrow> nat option \<Rightarrow> nat option \<Rightarrow> move \<Rightarrow> int
     \<Rightarrow> error + (nat list \<times> int)" where
  "compute_utility h tm hand pool p1 p2 mv player =
     (if fst (valor (deref h (fst mv))) = -1 \<and> p1 \<noteq> None then
        (case algum_igual h pool (the p1) p2 of
           Inl e \<Rightarrow> Inl e
         | Inr True \<Rightarrow> Inr (pool, 0)
         | Inr False \<Rightarrow>
            (case algum_igual h hand (the p1) p2 of
               Inl e \<Rightarrow> Inl e
             | Inr True \<Rightarrow> Inr (pool, 0)
             | Inr False \<Rightarrow>
                (let total = length hand;
                     soma = sum_list (map (\<lambda>a. getValor (h a)) hand);
                     sorted_pool = sort_key (\<lambda>a. fst (valor (h a)) + snd (valor (h a))) pool;
                     soma_res = sum_list (map (\<lambda>a. getValor (h a))
                                   (take (min total (length sorted_pool)) sorted_pool))
                 in if soma < soma_res
                    then (if tm \<noteq> player then Inr (sorted_pool, -1) else Inr (sorted_pool, 4))
                    else (if tm \<noteq> player then Inr (sorted_pool, -1) else Inr (sorted_pool, 4)))))
      else if fst (valor (deref h (fst mv))) \<noteq> -1 then
        (if tm = player
         then (if length hand = 1 then Inr (pool, 4) else Inr (pool, 0))
         else (if length pool = 3 then Inr (pool, -1) else Inr (pool, 0)))
      else Inr (pool, -1))"

subsection \<open>The transition function\<close>

definition set_position :: "heap \<Rightarrow> nat \<Rightarrow> int \<Rightarrow> heap" where
  "set_position h a v = h(a := (h a)\<lparr>position := v\<rparr>)"

text \<open>\<open>list.remove\<close>: the first element equal (by \<open>__eq__\<close>) to the tile goes, or ValueError.\<close>

fun list_remove :: "heap \<Rightarrow> nat list \<Rightarrow> nat \<Rightarrow> error + nat list" where
  "list_remove h [] a = Inl ValueError"
| "list_remove h (x # xs) a =
     (if Pedra_eq (h x) (h a) then Inr xs
      else (case list_remove h xs a of Inl e \<Rightarrow> Inl e | Inr ys \<Rightarrow> Inr (x # ys)))"

text \<open>
  The writes of a tile played at end 1: its own orientation \<open>c\<close>, then
  \<open>if state.ponta1.position == -1: state.ponta1.position = 1\<close> for the tile \<open>e1\<close> of
  that end, read after the first write.
\<close>

definition orienta :: "heap \<Rightarrow> nat \<Rightarrow> int \<Rightarrow> nat \<Rightarrow> heap" where
  "orienta h a c e1 =
     (let h1 = set_position h a c
      in if position (h1 e1) = -1 then set_position h1 e1 1 else h1)"

text \<open>
  The orientation writes and the new ends for a tile \<open>a\<close> whose first pip is not -1:
  the store after the writes and the two ends of the successor.
\<close>

definition coloca ::
  "heap \<Rightarrow> GameState \<Rightarrow> nat \<Rightarrow> int \<Rightarrow> error + (heap \<times> nat option \<times> nat option)" where
  "coloca h state a sel =
     (case ponta1 state of
        None \<Rightarrow> Inr (set_position h a (-1), Some a, Some a)
      | Some e1 \<Rightarrow>
          (if sel = 0 then
             (if fst (valor (h a)) = fst (valor (h e1)) \<or> fst (valor (h a)) = snd (valor (h e1))
              then Inr (orienta h a 1 e1, Some a, ponta2 state)
              else if snd (valor (h a)) = fst (valor (h e1)) \<or> snd (valor (h a)) = snd (valor (h e1))
              then Inr (orienta h a 0 e1, Some a, ponta2 state)
              else Inr (h, Some a, ponta2 state))
           else if sel = 1 then
             (case ponta2 state of
                None \<Rightarrow> Inl AttributeError
              | Some e2 \<Rightarrow>
                  (if fst (valor (h a)) = fst (valor (h e2)) \<or> fst (valor (h a)) = snd (valor (h e2))
                   then Inr (set_position h a 1, ponta1 state, Some a)
                   else if snd (valor (h a)) = fst (valor (h e2))
                           \<or> snd (valor (h a)) = snd (valor (h e2))
                   then Inr (set_position h a 0, ponta1 state, Some a)
                   else Inr (h, ponta1 state, Some a)))
           else Inr (h, ponta1 state, ponta2 state)))"

text \<open>
  \<open>Domino.result\<close>. It returns the store after the call, the argument state as the call
  leaves it (its pool list may have been sorted) and the successor state. The copies
  \<open>list(state.pedras)\<close> and \<open>list(state.pedras_restantes)\<close> are taken before
  \<open>compute_utility\<close> runs, so the successor is built from the lists as they were.
\<close>

definition result ::
  "heap \<Rightarrow> GameState \<Rightarrow> move \<Rightarrow> int \<Rightarrow> error + (heap \<times> GameState \<times> GameState)" where
  "result h state mv player =
     (case compute_utility h (to_move state) (pedras state) (pedras_restantes state)
             (ponta1 state) (ponta2 state) mv player of
        Inl e \<Rightarrow> Inl e
      | Inr (pool_after, u) \<Rightarrow>
         (case (case fst mv of
                  Passe \<Rightarrow> Inr (h, ponta1 state, ponta2 state, pedras state, pedras_restantes state)
                | Obj a \<Rightarrow>
                    (if fst (valor (h a)) \<noteq> -1 then
                       (case coloca h state a (snd mv) of
                          Inl e \<Rightarrow> Inl e
                        | Inr (h1, p1, p2) \<Rightarrow>
                            (if to_move state = player
                             then (case list_remove h1 (pedras state) a of
                                     Inl e \<Rightarrow> Inl e
                                   | Inr hand \<Rightarrow> Inr (h1, p1, p2, hand, pedras_restantes state))
                             else (case list_remove h1 (pedras_restantes state) a of
                                     Inl e \<Rightarrow> Inl e
                                   | Inr pool \<Rightarrow> Inr (h1, p1, p2, pedras state, pool))))
                     else Inr (h, ponta1 state, ponta2 state, pedras state, pedras_restantes state)))
          of
            Inl e \<Rightarrow> Inl e
          | Inr (h1, p1, p2, hand, pool) \<Rightarrow>
             (let tm = (to_move state + 1) mod 4
              in (case Domino_moves h1 tm hand pool p1 p2 player of
                    Inl e \<Rightarrow> Inl e
                  | Inr ms \<Rightarrow>
                      Inr (h1, state\<lparr>pedras_restantes := pool_after\<rparr>,
                           \<lparr>to_move = tm, pedras = hand, pedras_restantes = pool,
                            ponta1 = p1, ponta2 = p2, moves = ms, utility = u\<rparr>)))))"

subsection \<open>Numbers and Python values\<close>

text \<open>
  A Python number of the search: a finite value (the ints and floats of the program, read
  as reals), \<open>float('inf')\<close>, its negation, or NaN. A value is a number or \<open>None\<close>.
\<close>

datatype number = Fin real | PInf | MInf | NaN

datatype pyval = PNone | PNum number

text \<open>\<open>util * p\<close> for a finite \<open>p\<close>, \<open>a + b\<close>, \<open>a / n\<close> for a list length \<open>n\<close>, \<open>a > b\<close>.\<close>

fun num_times :: "number \<Rightarrow> real \<Rightarrow> number" where
  "num_times (Fin a) p = Fin (a * p)"
| "num_times PInf p = (if 0 < p then PInf else if p < 0 then MInf else NaN)"
| "num_times MInf p = (if 0 < p then MInf else if p < 0 then PInf else NaN)"
| "num_times NaN p = NaN"

fun num_plus :: "number \<Rightarrow> number \<Rightarrow> number" where
  "num_plus (Fin a) (Fin b) = Fin (a + b)"
| "num_plus NaN b = NaN"
| "num_plus a NaN = NaN"
| "num_plus PInf MInf = NaN"
| "num_plus MInf PInf = NaN"
| "num_plus PInf b = PInf"
| "num_plus a PInf = PInf"
| "num_plus MInf b = MInf"
| "num_plus a MInf = MInf"

fun num_div :: "number \<Rightarrow> nat \<Rightarrow> error + number" where
  "num_div a 0 = Inl ZeroDivisionError"
| "num_div (Fin a) (Suc n) = Inr (Fin (a / real (Suc n)))"
| "num_div a (Suc n) = Inr a"

fun num_gt :: "number \<Rightarrow> number \<Rightarrow> bool" where
  "num_gt (Fin a) (Fin b) = (b < a)"
| "num_gt NaN b = False"
| "num_gt a NaN = False"
| "num_gt PInf b = (b \<noteq> PInf)"
| "num_gt a PInf = False"
| "num_gt a MInf = (a \<noteq> MInf)"
| "num_gt MInf b = False"

subsection \<open>The evaluation heuristic\<close>

definition buchas :: "heap \<Rightarrow> nat list \<Rightarrow> int" where
  "buchas h ps =
     sum_list (map (\<lambda>a. if fst (valor (h a)) = snd (valor (h a))
                         then (if fst (valor (h a)) \<noteq> 0 then fst (valor (h a)) else 1)
                         else 0) ps)"

definition soma_pedras_max :: "heap \<Rightarrow> GameState \<Rightarrow> int" where
  "soma_pedras_max h state = sum_list (map (\<lambda>a. getValor (h a)) (pedras state))"

definition checa_diversidade_max :: "heap \<Rightarrow> GameState \<Rightarrow> nat" where
  "checa_diversidade_max h state =
     length (filter (\<lambda>k. \<exists>a \<in> set (pedras state). k = fst (valor (h a)) \<or> k = snd (valor (h a)))
               [0, 1, 2, 3, 4, 5, 6])"

text \<open>
  \<open>Domino.eval\<close>: every feature is computed first (the call of \<open>moves\<close> can raise), then
  the seat selects the combination. No branch of the source covers a seat other than
  0, 1 and 2: the function falls off its end and returns \<open>None\<close>.
\<close>

definition eval :: "heap \<Rightarrow> GameState \<Rightarrow> int \<Rightarrow> error + pyval" where
  "eval h state player =
     (let n = real (length (pedras state));
          m = real (length (pedras_restantes state)) / 3;
          b = real_of_int (buchas h (pedras state));
          n_pedras = n;
          delta = m - n
      in (case Domino_moves h player (pedras state) (pedras_restantes state)
                 (ponta1 state) (ponta2 state) player of
            Inl e \<Rightarrow> Inl e
          | Inr movimentos \<Rightarrow>
             (let soma = real_of_int (soma_pedras_max h state);
                  diversidade = real (checa_diversidade_max h state)
              in if player = 0 then
                   Inr (PNum (Fin (- 0.9 * b - 0.2 * n + 0.7 * delta - 0.4 * soma)))
                 else if player = 1 then
                   Inr (PNum (Fin (0.5 * real (length movimentos) + 0.6 * diversidade)))
                 else if player = 2 then
                   Inr (PNum (Fin (- 0.9 * b - 0.2 * n_pedras + 0.7 * delta
                                   + 0.5 * real (length movimentos) - 0.4 * soma
                                   + 0.6 * diversidade)))
                 else Inr PNone)))"

subsection \<open>The chance model\<close>

type_synonym chance = "int \<times> move list \<times> nat \<times> nat"

definition actions :: "GameState \<Rightarrow> move list" where
  "actions state = moves state"

definition Domino_utility :: "GameState \<Rightarrow> int \<Rightarrow> int" where
  "Domino_utility state player = utility state"

definition terminal_test :: "GameState \<Rightarrow> bool" where
  "terminal_test state \<longleftrightarrow> utility state \<noteq> 0"

definition Domino_ponta1 :: "move \<Rightarrow> bool" where
  "Domino_ponta1 mv \<longleftrightarrow> snd mv = 0"

definition Domino_ponta2 :: "move \<Rightarrow> bool" where
  "Domino_ponta2 mv \<longleftrightarrow> snd mv = 1"

definition chances :: "GameState \<Rightarrow> chance list" where
  "chances state =
     (let n_moves = length (moves state)
      in if to_move state \<noteq> 0 then
           (let n = length (pedras_restantes state);
                p1 = (1, filter Domino_ponta1 (moves state), n_moves, n);
                p2 = (2, filter Domino_ponta2 (moves state), n_moves, n);
                pi = (-1, [(Passe, -1)], n_moves, n)
            in (if length (fst (snd p1)) > 0 then [p1] else [])
               @ (if length (fst (snd p2)) > 0 then [p2] else [])
               @ [pi])
         else [(0, moves state, n_moves, length (pedras state))])"

definition probability :: "chance \<Rightarrow> error + real" where
  "probability c =
     (case c of (cat, ms, n_moves, n) \<Rightarrow>
        if cat = 1 \<or> cat = 2 then
          (if n = 0 then Inl ZeroDivisionError else Inr (real (length ms) / real n))
        else if cat = -1 then
          (if n = 0 then Inl ZeroDivisionError else Inr (1 - real n_moves / real n))
        else Inr 1)"

text \<open>\<open>outcome\<close> builds a state that shares both lists with its argument.\<close>

definition outcome :: "GameState \<Rightarrow> chance \<Rightarrow> GameState" where
  "outcome state c = state\<lparr>moves := fst (snd c)\<rparr>"

subsection \<open>The search\<close>

text \<open>
  The three local functions of \<open>expectiminimax\<close>, with the variables \<open>d\<close> and \<open>player\<close>
  of the enclosing call as parameters, and each \<open>for\<close> loop as a function over the rest
  of its list. Every function returns the store and its argument state as the calls below
  it leave them, beside its value. \<open>max(v, x)\<close> is \<open>x if x > v else v\<close>, and comparing or
  multiplying \<open>None\<close> raises TypeError.
\<close>

function max_value :: "nat \<Rightarrow> int \<Rightarrow> heap \<Rightarrow> GameState \<Rightarrow> nat \<Rightarrow> error + (heap \<times> GameState \<times> pyval)"
  and max_loop :: "nat \<Rightarrow> int \<Rightarrow> heap \<Rightarrow> GameState \<Rightarrow> move list \<Rightarrow> nat \<Rightarrow> number
                     \<Rightarrow> error + (heap \<times> GameState \<times> pyval)"
  and min_value :: "nat \<Rightarrow> int \<Rightarrow> heap \<Rightarrow> GameState \<Rightarrow> nat \<Rightarrow> error + (heap \<times> GameState \<times> pyval)"
  and min_loop :: "nat \<Rightarrow> int \<Rightarrow> heap \<Rightarrow> GameState \<Rightarrow> move list \<Rightarrow> nat \<Rightarrow> number
                     \<Rightarrow> error + (heap \<times> GameState \<times> pyval)"
  and chance_node :: "nat \<Rightarrow> int \<Rightarrow> heap \<Rightarrow> GameState \<Rightarrow> move \<Rightarrow> nat
                     \<Rightarrow> error + (heap \<times> GameState \<times> pyval)"
  and chance_loop :: "nat \<Rightarrow> int \<Rightarrow> heap \<Rightarrow> GameState \<Rightarrow> chance list \<Rightarrow> nat \<Rightarrow> number
                     \<Rightarrow> error + (heap \<times> GameState \<times> number)"
where
  "max_value d player h state depth =
     (if d \<le> depth
      then (case eval h state player of Inl e \<Rightarrow> Inl e | Inr v \<Rightarrow> Inr (h, state, v))
      else max_loop d player h state (actions state) depth MInf)"
| "max_loop d player h state [] depth v = Inr (h, state, PNum v)"
| "max_loop d player h state (acao # rest) depth v =
     (case chance_node d player h state acao depth of
        Inl e \<Rightarrow> Inl e
      | Inr (h', state', PNone) \<Rightarrow> Inl TypeError
      | Inr (h', state', PNum x) \<Rightarrow>
          max_loop d player h' state' rest depth (if num_gt x v then x else v))"
| "min_value d player h state depth =
     (if d \<le> depth
      then (case eval h state player of Inl e \<Rightarrow> Inl e | Inr v \<Rightarrow> Inr (h, state, v))
      else min_loop d player h state (actions state) depth PInf)"
| "min_loop d player h state [] depth v = Inr (h, state, PNum v)"
| "min_loop d player h state (acao # rest) depth v =
     (case chance_node d player h state acao depth of
        Inl e \<Rightarrow> Inl e
      | Inr (h', state', PNone) \<Rightarrow> Inl TypeError
      | Inr (h', state', PNum x) \<Rightarrow>
          min_loop d player h' state' rest depth (if num_gt v x then x else v))"
| "chance_node d player h state action depth =
     (case result h state action player of
        Inl e \<Rightarrow> Inl e
      | Inr (h1, state1, res_state) \<Rightarrow>
          (if terminal_test res_state
           then Inr (h1, state1, PNum (Fin (real_of_int (Domino_utility res_state player))))
           else if d \<le> depth
           then (case eval h1 state1 player of Inl e \<Rightarrow> Inl e | Inr v \<Rightarrow> Inr (h1, state1, v))
           else (case chance_loop d player h1 res_state (chances res_state) depth (Fin 0) of
                   Inl e \<Rightarrow> Inl e
                 | Inr (h2, res2, sum_chances) \<Rightarrow>
                     (case num_div sum_chances (length (chances res_state)) of
                        Inl e \<Rightarrow> Inl e
                      | Inr v \<Rightarrow> Inr (h2, state1, PNum v)))))"
| "chance_loop d player h res_state [] depth sum_chances = Inr (h, res_state, sum_chances)"
| "chance_loop d player h res_state (chance # rest) depth sum_chances =
     (case (if to_move (outcome res_state chance) = player
            then max_value d player h (outcome res_state chance) (depth + 1)
            else min_value d player h (outcome res_state chance) (depth + 1)) of
        Inl e \<Rightarrow> Inl e
      | Inr (h', res', util) \<Rightarrow>
          (case probability chance of
             Inl e \<Rightarrow> Inl e
           | Inr p \<Rightarrow>
               (case util of
                  PNone \<Rightarrow> Inl TypeError
                | PNum u \<Rightarrow>
                    chance_loop d player h' res' rest depth (num_plus sum_chances (num_times u p)))))"
  by pat_completeness auto
termination
  by (relation "measures
        [\<lambda>x. case x of
               Inl (Inl (d, player, h, state, depth)) \<Rightarrow> 4 * (d - depth)
             | Inl (Inr (Inl (d, player, h, state, acts, depth, v))) \<Rightarrow> 4 * (d - Suc depth) + 3
             | Inl (Inr (Inr (d, player, h, state, depth))) \<Rightarrow> 4 * (d - depth)
             | Inr (Inl (d, player, h, state, acts, depth, v)) \<Rightarrow> 4 * (d - Suc depth) + 3
             | Inr (Inr (Inl (d, player, h, state, action, depth))) \<Rightarrow> 4 * (d - Suc depth) + 2
             | Inr (Inr (Inr (d, player, h, state, cs, depth, s))) \<Rightarrow> 4 * (d - Suc depth) + 1,
         \<lambda>x. case x of
               Inl (Inl (d, player, h, state, depth)) \<Rightarrow> 0
             | Inl (Inr (Inl (d, player, h, state, acts, depth, v))) \<Rightarrow> length acts
             | Inl (Inr (Inr (d, player, h, state, depth))) \<Rightarrow> 0
             | Inr (Inl (d, player, h, state, acts, depth, v)) \<Rightarrow> length acts
             | Inr (Inr (Inl (d, player, h, state, action, depth))) \<Rightarrow> 0
             | Inr (Inr (Inr (d, player, h, state, cs, depth, s))) \<Rightarrow> length cs]")
     auto

declare max_value.simps [simp del] min_value.simps [simp del] chance_node.simps [simp del]


text \<open>
  The depth limit, from the number of tiles in the hand of the state searched, and the body
  of \<open>expectiminimax\<close>. The function \<open>argmax\<close> comes from a module \<open>utils\<close> that is not
  among the sources, so it is a parameter: it receives the actions, the key function (a
  call of \<open>chance_node\<close> at depth 1), the store and the state.
\<close>

definition depth_limit :: "nat \<Rightarrow> nat" where
  "depth_limit n = (if n = 7 \<or> n = 6 then 7 else if n = 5 \<or> n = 4 then 5 else 9)"

definition Game_to_move :: "GameState \<Rightarrow> int" where
  "Game_to_move state = to_move state"

definition expectiminimax ::
  "(move list \<Rightarrow> (heap \<Rightarrow> GameState \<Rightarrow> move \<Rightarrow> error + (heap \<times> GameState \<times> pyval))
      \<Rightarrow> heap \<Rightarrow> GameState \<Rightarrow> 'r)
   \<Rightarrow> heap \<Rightarrow> GameState \<Rightarrow> 'r" where
  "expectiminimax argmax h state =
     (let player = Game_to_move state;
          n = length (pedras state);
          d = depth_limit n
      in argmax (actions state) (\<lambda>h' state' a. chance_node d player h' state' a 1) h state)"

subsection \<open>The initial deal\<close>

text \<open>
  \<open>cria_domino\<close> builds the 28 tiles; they get the addresses 0 to 27 in the order of their
  construction. \<open>escolhe_pedras\<close> draws seven tiles for each of the four players with
  \<open>pedras.pop(pos - 1)\<close>, where \<open>pos\<close> is what \<open>random.randint(0, n)\<close> returns: the
  random source is a parameter \<open>rnd\<close>, its \<open>t\<close>-th value being the result of the
  \<open>t\<close>-th call. \<open>list.pop\<close> counts a negative index from the end and raises IndexError
  out of range.
\<close>

definition cria_domino :: "Pedra list" where
  "cria_domino =
     concat (map (\<lambda>i. concat (map (\<lambda>j. if j \<le> i then [\<lparr>valor = (i, j), position = -1\<rparr>] else [])
                                  [0, 1, 2, 3, 4, 5, 6]))
                 [0, 1, 2, 3, 4, 5, 6])"

definition heap_inicial :: heap where
  "heap_inicial a = (if a < length cria_domino then cria_domino ! a else passe_pedra)"

definition list_pop :: "nat list \<Rightarrow> int \<Rightarrow> error + (nat \<times> nat list)" where
  "list_pop xs i =
     (let j = (if i < 0 then i + int (length xs) else i)
      in if 0 \<le> j \<and> j < int (length xs)
         then Inr (xs ! nat j, take (nat j) xs @ drop (Suc (nat j)) xs)
         else Inl IndexError)"

fun escolhe_mao :: "(nat \<Rightarrow> int) \<Rightarrow> nat \<Rightarrow> nat list \<Rightarrow> nat \<Rightarrow> error + (nat list \<times> nat list)" where
  "escolhe_mao rnd t ps 0 = Inr ([], ps)"
| "escolhe_mao rnd t ps (Suc k) =
     (case list_pop ps (rnd t - 1) of
        Inl e \<Rightarrow> Inl e
      | Inr (x, ps') \<Rightarrow>
          (case escolhe_mao rnd (Suc t) ps' k of
             Inl e \<Rightarrow> Inl e
           | Inr (mao, resto) \<Rightarrow> Inr (x # mao, resto)))"

definition escolhe_pedras :: "(nat \<Rightarrow> int) \<Rightarrow> error + (nat list \<times> nat list \<times> nat list \<times> nat list)" where
  "escolhe_pedras rnd =
     (case escolhe_mao rnd 0 [0..<length cria_domino] 7 of
        Inl e \<Rightarrow> Inl e
      | Inr (j0, r0) \<Rightarrow>
     (case escolhe_mao rnd 7 r0 7 of
        Inl e \<Rightarrow> Inl e
      | Inr (j1, r1) \<Rightarrow>
     (case escolhe_mao rnd 14 r1 7 of
        Inl e \<Rightarrow> Inl e
      | Inr (j2, r2) \<Rightarrow>
     (case escolhe_mao rnd 21 r2 7 of
        Inl e \<Rightarrow> Inl e
      | Inr (j3, r3) \<Rightarrow> Inr (j0, j1, j2, j3)))))"

text \<open>\<open>Domino.__init__\<close>: the store of the new tiles and the state \<open>initial\<close>.\<close>

definition Domino_init :: "(nat \<Rightarrow> int) \<Rightarrow> error + (heap \<times> GameState)" where
  "Domino_init rnd =
     (case escolhe_pedras rnd of
        Inl e \<Rightarrow> Inl e
      | Inr (j0, j1, j2, j3) \<Rightarrow>
          (case Domino_moves heap_inicial 0 j0 (j1 @ j2 @ j3) None None 0 of
             Inl e \<Rightarrow> Inl e
           | Inr ms \<Rightarrow>
               Inr (heap_inicial,
                    \<lparr>to_move = 0, pedras = j0, pedras_restantes = j1 @ j2 @ j3,
                     ponta1 = None, ponta2 = None, moves = ms, utility = 0\<rparr>)))"

text \<open>
  The states a game or a search can reach from an initial deal, each with the number of
  tiles played so far: a transition with a tile whose first pip is not -1 plays one more
  tile, a pass none. The states are those returned by \<open>result\<close> (the successor and the
  argument as the call leaves it) and by \<open>outcome\<close>, in whatever store the call finds.
\<close>

inductive reachable :: "GameState \<Rightarrow> nat \<Rightarrow> bool" where
  initial: "Domino_init rnd = Inr (h, s) \<Longrightarrow> reachable s 0"
| placed: "reachable s k \<Longrightarrow> result h s mv player = Inr (h', s', r) \<Longrightarrow>
     fst (valor (deref h (fst mv))) \<noteq> -1 \<Longrightarrow> reachable r (Suc k)"
| passed: "reachable s k \<Longrightarrow> result h s mv player = Inr (h', s', r) \<Longrightarrow>
     fst (valor (deref h (fst mv))) = -1 \<Longrightarrow> reachable r k"
| argument: "reachable s k \<Longrightarrow> result h s mv player = Inr (h', s', r) \<Longrightarrow> reachable s' k"
| revealed: "reachable s k \<Longrightarrow> reachable (outcome s c) k"


subsection \<open>The values of the chance events\<close>

text \<open>
  For the statement about \<open>chance_node\<close>: the list, in the order of the events, of the
  value that the recursion returns for an event and of the probability of that event. The
  recursion for an event runs in the store, and on the successor state, that the events
  before it have left.
\<close>

fun event_values ::
  "nat \<Rightarrow> int \<Rightarrow> heap \<Rightarrow> GameState \<Rightarrow> chance list \<Rightarrow> nat
     \<Rightarrow> error + (heap \<times> GameState \<times> (number \<times> real) list)" where
  "event_values d player h res_state [] depth = Inr (h, res_state, [])"
| "event_values d player h res_state (chance # rest) depth =
     (case (if to_move (outcome res_state chance) = player
            then max_value d player h (outcome res_state chance) (depth + 1)
            else min_value d player h (outcome res_state chance) (depth + 1)) of
        Inl e \<Rightarrow> Inl e
      | Inr (h', res', util) \<Rightarrow>
          (case probability chance of
             Inl e \<Rightarrow> Inl e
           | Inr p \<Rightarrow>
               (case util of
                  PNone \<Rightarrow> Inl TypeError
                | PNum u \<Rightarrow>
                    (case event_values d player h' res' rest depth of
                       Inl e \<Rightarrow> Inl e
                     | Inr (h'', res'', ts) \<Rightarrow> Inr (h'', res'', (u, p) # ts)))))"

subsection \<open>Example inputs\<close>

text \<open>
  A store of eight tiles: (3,5), (3,6), (2,2), (4,4), (1,1) and (0,1) not yet oriented,
  (5,6) lying with its 5 open and (3,4) lying with its 3 open.
\<close>

definition ex_h :: heap where
  "ex_h = (\<lambda>_. passe_pedra)
     (0 := \<lparr>valor = (3, 5), position = -1\<rparr>,
      1 := \<lparr>valor = (3, 6), position = -1\<rparr>,
      2 := \<lparr>valor = (5, 6), position = 0\<rparr>,
      3 := \<lparr>valor = (2, 2), position = -1\<rparr>,
      4 := \<lparr>valor = (4, 4), position = -1\<rparr>,
      5 := \<lparr>valor = (1, 1), position = -1\<rparr>,
      6 := \<lparr>valor = (0, 1), position = -1\<rparr>,
      7 := \<lparr>valor = (3, 4), position = 0\<rparr>)"

text \<open>Seat 0 holds its last tile, (3,5); the only tile on the board is (3,6).\<close>

definition ex_last :: GameState where
  "ex_last = \<lparr>to_move = 0, pedras = [0], pedras_restantes = [3, 4],
              ponta1 = Some 1, ponta2 = Some 1, moves = [(Obj 0, 0)], utility = 0\<rparr>"

text \<open>Seat 1 to move, both ends showing a 5, the tile (3,5) in the pool.\<close>

definition ex_pass :: GameState where
  "ex_pass = \<lparr>to_move = 1, pedras = [3], pedras_restantes = [0],
              ponta1 = Some 2, ponta2 = Some 2, moves = [(Obj 0, 0)], utility = 0\<rparr>"

text \<open>Seat 1 to move, both ends showing a 5, four tiles in the pool.\<close>

definition ex_four :: GameState where
  "ex_four = \<lparr>to_move = 1, pedras = [3], pedras_restantes = [0, 4, 5, 6],
              ponta1 = Some 2, ponta2 = Some 2, moves = [(Obj 0, 0)], utility = 0\<rparr>"

text \<open>Seat 1 searches and is to move: its hand is the tile (3,5), the ends show 3 and 5.\<close>

definition ex_seat1 :: GameState where
  "ex_seat1 = \<lparr>to_move = 1, pedras = [0], pedras_restantes = [3, 4],
               ponta1 = Some 7, ponta2 = Some 2, moves = [(Obj 0, 0)], utility = 0\<rparr>"

text \<open>Seat 1 to move, seat 0 searching: no tile of the pool matches the ends 3 and 5.\<close>

definition ex_nomatch :: GameState where
  "ex_nomatch = \<lparr>to_move = 1, pedras = [0], pedras_restantes = [3, 4, 5],
                 ponta1 = Some 7, ponta2 = Some 2, moves = [(Passe, -1)], utility = 0\<rparr>"

text \<open>Seat 1 to move and blocked: neither the hand (1,1) nor the pool matches a 5.\<close>

definition ex_blocked :: GameState where
  "ex_blocked = \<lparr>to_move = 1, pedras = [5], pedras_restantes = [4, 3],
                 ponta1 = Some 2, ponta2 = Some 2, moves = [(Passe, -1)], utility = 0\<rparr>"

text \<open>Seat 0 to move with the tiles (3,5) and (2,2), both ends showing a 5.\<close>

definition ex_two :: GameState where
  "ex_two = \<lparr>to_move = 0, pedras = [0, 3], pedras_restantes = [1, 4, 5],
             ponta1 = Some 2, ponta2 = Some 2, moves = [(Obj 0, 0)], utility = 0\<rparr>"


text \<open>The successor of that state when seat 0, searching, plays the tile (3,5).\<close>

definition ex_two_res :: GameState where
  "ex_two_res = \<lparr>to_move = 1, pedras = [3], pedras_restantes = [1, 4, 5],
                 ponta1 = Some 0, ponta2 = Some 2, moves = [(Obj 1, 0)], utility = 0\<rparr>"

text \<open>
  The initial state when every call of \<open>randint\<close> returns 0 (each draw pops the last
  tile), in the store \<open>heap_inicial\<close>, and its successor when seat 0 plays the tile (6,6).
\<close>

definition ex_init :: GameState where
  "ex_init = \<lparr>to_move = 0, pedras = [27, 26, 25, 24, 23, 22, 21],
        pedras_restantes =
          [20, 19, 18, 17, 16, 15, 14, 13, 12, 11, 10, 9, 8, 7, 6, 5, 4, 3, 2, 1, 0],
        ponta1 = None, ponta2 = None,
        moves =
          [(Obj 27, -1), (Obj 26, -1), (Obj 25, -1), (Obj 24, -1),
           (Obj 23, -1), (Obj 22, -1), (Obj 21, -1), (Passe, -1)],
        utility = 0\<rparr>"

definition ex_first :: GameState where
  "ex_first = \<lparr>to_move = 1, pedras = [26, 25, 24, 23, 22, 21],
        pedras_restantes =
          [20, 19, 18, 17, 16, 15, 14, 13, 12, 11, 10, 9, 8, 7, 6, 5, 4, 3, 2, 1, 0],
        ponta1 = Some 27, ponta2 = Some 27, moves = [(Passe, -1)], utility = 0\<rparr>"

section \<open>Properties\<close>

subsection \<open>The example store\<close>

lemma ex_h_simps:
  "ex_h 0 = \<lparr>valor = (3, 5), position = -1\<rparr>"
  "ex_h (Suc 0) = \<lparr>valor = (3, 6), position = -1\<rparr>"
  "ex_h 1 = \<lparr>valor = (3, 6), position = -1\<rparr>"
  "ex_h 2 = \<lparr>valor = (5, 6), position = 0\<rparr>"
  "ex_h 3 = \<lparr>valor = (2, 2), position = -1\<rparr>"
  "ex_h 4 = \<lparr>valor = (4, 4), position = -1\<rparr>"
  "ex_h 5 = \<lparr>valor = (1, 1), position = -1\<rparr>"
  "ex_h 6 = \<lparr>valor = (0, 1), position = -1\<rparr>"
  "ex_h 7 = \<lparr>valor = (3, 4), position = 0\<rparr>"
  by (simp_all add: ex_h_def)

subsection \<open>The move generator\<close>

lemma moves_loop_ends:
  "moves_loop h xs (Some e1) (Some e2) mv i
     = Inr (mv @ jogadas h e1 e2 xs, i + length (jogadas h e1 e2 xs))"
  by (induction xs arbitrary: mv i) (simp_all add: jogadas_def)

lemma Domino_moves_ends:
  "Domino_moves h tm hand pool (Some e1) (Some e2) player =
     Inr (let ms = jogadas h e1 e2 (if tm = player then hand else pool)
          in if ms = [] then [(Passe, -1)] else ms)"
  by (simp add: Domino_moves_def moves_loop_ends Let_def)

lemma moves_loop_unset:
  "moves_loop h xs None p2 mv i = Inr (mv @ map (\<lambda>t. (Obj t, -1)) xs, i)"
  by (induction xs arbitrary: mv) simp_all

lemma Domino_moves_unset:
  "Domino_moves h tm hand pool None p2 player =
     Inr (map (\<lambda>t. (Obj t, -1)) (if tm = player then hand else pool) @ [(Passe, -1)])"
  by (simp add: Domino_moves_def moves_loop_unset)

text \<open>
  \<open>igual\<close> against the match relation of the specification. What \<open>igual\<close> accepts
  matches, and on an oriented end the two agree. On the first tile of the board, not yet
  oriented, \<open>igual\<close> repeats the comparison of the second pip with the end's first pip and
  has none of the first pip with the end's second pip.
\<close>

lemma igual_casa: "igual self p \<Longrightarrow> casa self p"
  by (auto simp: igual_def casa_def split: if_splits)

lemma igual_oriented: "position p \<noteq> -1 \<Longrightarrow> igual self p = casa self p"
  by (auto simp: igual_def casa_def)

lemma igual_iff_casa:
  "igual self p \<longleftrightarrow>
     casa self p
     \<and> \<not> (position p = -1 \<and> fst (valor self) = snd (valor p)
            \<and> fst (valor self) \<noteq> fst (valor p) \<and> snd (valor self) \<noteq> fst (valor p)
            \<and> snd (valor self) \<noteq> snd (valor p))"
  by (auto simp: igual_def casa_def)

lemma igual_unoriented_example:
  "casa \<lparr>valor = (3, 2), position = -1\<rparr> \<lparr>valor = (6, 3), position = -1\<rparr>
   \<and> \<not> igual \<lparr>valor = (3, 2), position = -1\<rparr> \<lparr>valor = (6, 3), position = -1\<rparr>"
  by (simp add: igual_def casa_def)

lemma jogadas_member:
  "m \<in> set (jogadas h e1 e2 xs) \<Longrightarrow>
   \<exists>t \<in> set xs. (m = (Obj t, 0) \<and> igual (h t) (h e1))
                \<or> (m = (Obj t, 1) \<and> \<not> igual (h t) (h e1) \<and> igual (h t) (h e2))"
  by (auto simp: jogadas_def split: if_splits)

lemma jogadas_count:
  "length (filter (\<lambda>m. fst m = Obj t) (jogadas h e1 e2 xs)) \<le> count_list xs t"
  by (induction xs) (auto simp: jogadas_def)

lemma jogadas_oriented:
  "position (h e1) \<noteq> -1 \<Longrightarrow> position (h e2) \<noteq> -1 \<Longrightarrow>
   jogadas h e1 e2 xs = jogadas_casa h e1 e2 xs"
  by (induction xs) (auto simp: jogadas_def jogadas_casa_def igual_oriented)

lemma jogadas_none:
  "\<forall>t \<in> set xs. \<not> casa (h t) (h e1) \<and> \<not> casa (h t) (h e2) \<Longrightarrow> jogadas h e1 e2 xs = []"
  by (induction xs) (auto simp: jogadas_def dest: igual_casa)

lemma jogadas_no_pass: "\<forall>m \<in> set (jogadas h e1 e2 xs). fst m \<noteq> Passe"
  by (auto simp: jogadas_def split: if_splits)

text \<open>
  C8, as the code has it. With both ends set, the generator tests the ends with an
  \<open>if\<close> and an \<open>elif\<close>. Every move it returns is the pass or places a tile of the list
  searched (the hand when the mover is the searching player, the pool otherwise) at an end
  that the tile matches; a tile of the list gets at most one move, and none at end 2 when
  it has one at end 1; and when no tile of the list matches an end, the pass is the only
  move. When both end tiles are oriented the list is exactly one move for each tile that
  matches an end, at end 1 if the tile matches end 1 and at end 2 otherwise, so that a
  tile matching both ends gives one move, at end 1, and the pass is the only move exactly
  when no tile matches. Matching is the relation \<open>casa\<close> of the specification.
\<close>

theorem moves_one_per_tile:
  "\<exists>ms. Domino_moves h tm hand pool (Some e1) (Some e2) player = Inr ms
      \<and> (\<forall>m \<in> set ms. m = (Passe, -1)
            \<or> (\<exists>t \<in> set (if tm = player then hand else pool).
                  (m = (Obj t, 0) \<and> casa (h t) (h e1))
                  \<or> (m = (Obj t, 1) \<and> casa (h t) (h e2))))
      \<and> (\<forall>t. length (filter (\<lambda>m. fst m = Obj t) ms)
                \<le> count_list (if tm = player then hand else pool) t)
      \<and> (\<forall>t. (Obj t, 0) \<in> set ms \<longrightarrow> (Obj t, 1) \<notin> set ms)
      \<and> ((\<forall>t \<in> set (if tm = player then hand else pool).
              \<not> casa (h t) (h e1) \<and> \<not> casa (h t) (h e2)) \<longrightarrow> ms = [(Passe, -1)])
      \<and> (position (h e1) \<noteq> -1 \<and> position (h e2) \<noteq> -1 \<longrightarrow>
            ms = (let js = jogadas_casa h e1 e2 (if tm = player then hand else pool)
                  in if js = [] then [(Passe, -1)] else js))"
proof -
  let ?xs = "if tm = player then hand else pool"
  let ?js = "jogadas h e1 e2 ?xs"
  let ?ms = "if ?js = [] then [(Passe, -1)] else ?js"
  have d: "Domino_moves h tm hand pool (Some e1) (Some e2) player = Inr ?ms"
    by (simp add: Domino_moves_ends Let_def)
  have legal: "\<forall>m \<in> set ?ms. m = (Passe, -1)
            \<or> (\<exists>t \<in> set ?xs. (m = (Obj t, 0) \<and> casa (h t) (h e1))
                              \<or> (m = (Obj t, 1) \<and> casa (h t) (h e2)))"
  proof
    fix m assume m: "m \<in> set ?ms"
    show "m = (Passe, -1)
            \<or> (\<exists>t \<in> set ?xs. (m = (Obj t, 0) \<and> casa (h t) (h e1))
                              \<or> (m = (Obj t, 1) \<and> casa (h t) (h e2)))"
    proof (cases "?js = []")
      case True
      with m show ?thesis by simp
    next
      case False
      with m have "m \<in> set ?js" by simp
      from jogadas_member [OF this] show ?thesis
        by (blast intro: igual_casa)
    qed
  qed
  have once: "\<forall>t. length (filter (\<lambda>m. fst m = Obj t) ?ms) \<le> count_list ?xs t"
  proof
    fix t
    show "length (filter (\<lambda>m. fst m = Obj t) ?ms) \<le> count_list ?xs t"
      using jogadas_count [of t h e1 e2 ?xs] by (cases "?js = []") simp_all
  qed
  have elif: "\<forall>t. (Obj t, 0) \<in> set ?ms \<longrightarrow> (Obj t, 1) \<notin> set ?ms"
  proof (intro allI impI notI)
    fix t assume a: "(Obj t, 0) \<in> set ?ms" and b: "(Obj t, 1) \<in> set ?ms"
    from a have ne: "?js \<noteq> []" by (auto split: if_splits)
    with a b have "(Obj t, 0) \<in> set ?js" and "(Obj t, 1) \<in> set ?js" by simp_all
    from jogadas_member [OF this(1)] jogadas_member [OF this(2)] show False by auto
  qed
  have none: "(\<forall>t \<in> set ?xs. \<not> casa (h t) (h e1) \<and> \<not> casa (h t) (h e2)) \<longrightarrow> ?ms = [(Passe, -1)]"
    using jogadas_none [of ?xs h e1 e2] by simp
  have oriented: "position (h e1) \<noteq> -1 \<and> position (h e2) \<noteq> -1 \<longrightarrow>
            ?ms = (let js = jogadas_casa h e1 e2 ?xs in if js = [] then [(Passe, -1)] else js)"
    using jogadas_oriented [of h e1 e2 ?xs] by (simp add: Let_def)
  from d legal once elif none oriented show ?thesis by blast
qed

theorem moves_one_per_tile_witness:
  "casa (ex_h 0) (ex_h 7) \<and> casa (ex_h 0) (ex_h 2)
   \<and> position (ex_h 7) = 0 \<and> position (ex_h 2) = 0
   \<and> Domino_moves ex_h 0 [0] [] (Some 7) (Some 2) 0 = Inr [(Obj 0, 0)]"
proof -
  have p: "position (ex_h 7) \<noteq> -1 \<and> position (ex_h 2) \<noteq> -1"
    by (simp add: ex_h_simps)
  from moves_one_per_tile [of ex_h 0 "[0]" "[]" 7 2 0] obtain ms where
    d: "Domino_moves ex_h 0 [0] [] (Some 7) (Some 2) 0 = Inr ms"
    and o: "position (ex_h 7) \<noteq> -1 \<and> position (ex_h 2) \<noteq> -1 \<longrightarrow>
            ms = (let js = jogadas_casa ex_h 7 2 (if (0::int) = 0 then [0] else [])
                  in if js = [] then [(Passe, -1)] else js)"
    by blast
  from o p have "ms = [(Obj 0, 0)]"
    by (simp add: jogadas_casa_def casa_def ex_h_simps)
  with d show ?thesis
    by (simp add: casa_def ex_h_simps)
qed

text \<open>
  C8 as it is stated fails: the tile (3,5) matches the end that shows 3 and the end that
  shows 5, one move per end would be two moves, and the generator returns one.
\<close>

theorem moves_per_end_counterexample:
  "jogadas_por_ponta ex_h 7 2 [0] = [(Obj 0, 0), (Obj 0, 1)]
   \<and> Domino_moves ex_h 0 [0] [] (Some 7) (Some 2) 0 = Inr [(Obj 0, 0)]"
  by (simp add: jogadas_por_ponta_def casa_def Domino_moves_def igual_def ex_h_simps)

subsection \<open>The utility marker of a transition\<close>

lemma algum_igual_ends:
  "algum_igual h xs e1 (Some e2)
     = Inr (\<exists>t \<in> set xs. igual (h t) (h e1) \<or> igual (h t) (h e2))"
  by (induction xs) auto

lemma compute_utility_pass:
  assumes "fst (valor (deref h (fst mv))) = -1"
  shows "\<exists>pool'. compute_utility h tm hand pool (Some e1) (Some e2) mv player =
     Inr (pool', if \<exists>t \<in> set (pool @ hand). igual (h t) (h e1) \<or> igual (h t) (h e2) then 0
                 else if tm \<noteq> player then -1 else 4)"
proof (cases "\<exists>t \<in> set pool. igual (h t) (h e1) \<or> igual (h t) (h e2)")
  case True
  with assms show ?thesis
    by (simp add: compute_utility_def algum_igual_ends) blast
next
  case no_pool: False
  show ?thesis
  proof (cases "\<exists>t \<in> set hand. igual (h t) (h e1) \<or> igual (h t) (h e2)")
    case True
    with assms no_pool show ?thesis
      by (simp add: compute_utility_def algum_igual_ends) blast
  next
    case False
    with assms no_pool show ?thesis
      by (simp add: compute_utility_def algum_igual_ends Let_def) blast
  qed
qed

lemma compute_utility_placement:
  "fst (valor (deref h (fst mv))) \<noteq> -1 \<Longrightarrow>
   compute_utility h tm hand pool p1 p2 mv player =
     Inr (pool, if tm = player then (if length hand = 1 then 4 else 0)
                else (if length pool = 3 then -1 else 0))"
  by (simp add: compute_utility_def)

lemma list_remove_length:
  "list_remove h xs a = Inr ys \<Longrightarrow> length xs = Suc (length ys)"
  by (induction xs arbitrary: ys) (auto split: if_splits sum.splits)

text \<open>
  C2, as the code has it. A pass on a board with both ends set always returns, and leaves
  the store as it is. The successor has the ends, the hand and the pool of the argument
  (the pool as it was when the call began), the turn advanced, and for its move list what
  the move generator returns for these. The marker is 0, -1 or 4. It is 0 only if some
  tile of the pool or of the hand matches an end, and it is 0 whenever some such tile
  matches an end whose tile is oriented; so when no tile matches, the marker is -1 or 4.
  Matching is the relation \<open>casa\<close> of the specification.
\<close>

theorem pass_on_board:
  assumes "fst (valor (deref h (fst mv))) = -1"
    and "ponta1 state = Some e1" and "ponta2 state = Some e2"
  shows "\<exists>state' ms u. result h state mv player =
     Inr (h, state',
          \<lparr>to_move = (to_move state + 1) mod 4, pedras = pedras state,
           pedras_restantes = pedras_restantes state,
           ponta1 = Some e1, ponta2 = Some e2, moves = ms, utility = u\<rparr>)
     \<and> Domino_moves h ((to_move state + 1) mod 4) (pedras state) (pedras_restantes state)
           (Some e1) (Some e2) player = Inr ms
     \<and> (u = 0 \<or> u = -1 \<or> u = 4)
     \<and> (u = 0 \<longrightarrow> (\<exists>t \<in> set (pedras_restantes state @ pedras state).
                        casa (h t) (h e1) \<or> casa (h t) (h e2)))
     \<and> ((\<exists>t \<in> set (pedras_restantes state @ pedras state).
            (casa (h t) (h e1) \<and> position (h e1) \<noteq> -1)
            \<or> (casa (h t) (h e2) \<and> position (h e2) \<noteq> -1)) \<longrightarrow> u = 0)"
proof -
  let ?any = "\<exists>t \<in> set (pedras_restantes state @ pedras state).
                 igual (h t) (h e1) \<or> igual (h t) (h e2)"
  let ?u = "if ?any then 0 else if to_move state \<noteq> player then -1 else (4::int)"
  from compute_utility_pass [OF assms(1)] obtain pool' where
    cu: "compute_utility h (to_move state) (pedras state) (pedras_restantes state)
           (Some e1) (Some e2) mv player = Inr (pool', ?u)"
    by blast
  obtain ms where
    ms: "Domino_moves h ((to_move state + 1) mod 4) (pedras state) (pedras_restantes state)
           (Some e1) (Some e2) player = Inr ms"
    by (simp add: Domino_moves_ends)
  have r: "result h state mv player =
     Inr (h, state\<lparr>pedras_restantes := pool'\<rparr>,
          \<lparr>to_move = (to_move state + 1) mod 4, pedras = pedras state,
           pedras_restantes = pedras_restantes state,
           ponta1 = Some e1, ponta2 = Some e2, moves = ms, utility = ?u\<rparr>)"
  proof (cases "fst mv")
    case (Obj a)
    with assms cu ms show ?thesis
      by (simp add: result_def Let_def)
  next
    case Passe
    with assms cu ms show ?thesis
      by (simp add: result_def Let_def)
  qed
  have three: "?u = 0 \<or> ?u = -1 \<or> ?u = 4"
    by simp
  have only: "?u = 0 \<longrightarrow> (\<exists>t \<in> set (pedras_restantes state @ pedras state).
                        casa (h t) (h e1) \<or> casa (h t) (h e2))"
  proof
    assume "?u = 0"
    then have ?any by (simp split: if_splits)
    then show "\<exists>t \<in> set (pedras_restantes state @ pedras state).
                        casa (h t) (h e1) \<or> casa (h t) (h e2)"
      by (blast intro: igual_casa)
  qed
  have oriented: "(\<exists>t \<in> set (pedras_restantes state @ pedras state).
            (casa (h t) (h e1) \<and> position (h e1) \<noteq> -1)
            \<or> (casa (h t) (h e2) \<and> position (h e2) \<noteq> -1)) \<longrightarrow> ?u = 0"
  proof
    assume "\<exists>t \<in> set (pedras_restantes state @ pedras state).
            (casa (h t) (h e1) \<and> position (h e1) \<noteq> -1)
            \<or> (casa (h t) (h e2) \<and> position (h e2) \<noteq> -1)"
    then have ?any
      using igual_oriented by blast
    then show "?u = 0" by simp
  qed
  from r ms three only oriented show ?thesis by blast
qed

lemma result_ex_four_pass_shape:
  "fst (valor (deref ex_h (fst (Passe, -1::int)))) = -1
   \<and> ponta1 ex_four = Some 2 \<and> ponta2 ex_four = Some 2"
  by (simp add: passe_pedra_def ex_four_def)

theorem pass_on_board_witness:
  "casa (ex_h 0) (ex_h 2) \<and> position (ex_h 2) = 0
   \<and> (\<exists>state'. result ex_h ex_four (Passe, -1) 0 =
         Inr (ex_h, state',
              \<lparr>to_move = 2, pedras = [3], pedras_restantes = [0, 4, 5, 6],
               ponta1 = Some 2, ponta2 = Some 2, moves = [(Obj 0, 0)], utility = 0\<rparr>))"
proof -
  have c: "casa (ex_h 0) (ex_h 2) \<and> position (ex_h 2) = 0"
    by (simp add: casa_def ex_h_simps)
  have m: "Domino_moves ex_h 2 [3] [0, 4, 5, 6] (Some 2) (Some 2) 0 = Inr [(Obj 0, 0)]"
    by (simp add: Domino_moves_def igual_def ex_h_simps)
  from pass_on_board [of ex_h "(Passe, -1)" ex_four 2 2 0] result_ex_four_pass_shape
  obtain state' ms u where
    r: "result ex_h ex_four (Passe, -1) 0 =
         Inr (ex_h, state',
              \<lparr>to_move = (to_move ex_four + 1) mod 4, pedras = pedras ex_four,
               pedras_restantes = pedras_restantes ex_four,
               ponta1 = Some 2, ponta2 = Some 2, moves = ms, utility = u\<rparr>)"
    and d: "Domino_moves ex_h ((to_move ex_four + 1) mod 4) (pedras ex_four)
              (pedras_restantes ex_four) (Some 2) (Some 2) 0 = Inr ms"
    and o: "(\<exists>t \<in> set (pedras_restantes ex_four @ pedras ex_four).
              (casa (ex_h t) (ex_h 2) \<and> position (ex_h 2) \<noteq> -1)
              \<or> (casa (ex_h t) (ex_h 2) \<and> position (ex_h 2) \<noteq> -1)) \<longrightarrow> u = 0"
    by blast
  from d m have "ms = [(Obj 0, 0)]"
    by (simp add: ex_four_def)
  moreover from o c have "u = 0"
    by (simp add: ex_four_def)
  ultimately show ?thesis
    using r c by (simp add: ex_four_def)
qed

text \<open>
  C2 as it is stated fails: this pass on a nonempty board, with a tile of the pool that
  matches an end, has the marker 0.
\<close>

theorem pass_marker_counterexample:
  "result ex_h ex_pass (Passe, -1) 0 =
     Inr (ex_h, ex_pass,
          \<lparr>to_move = 2, pedras = [3], pedras_restantes = [0], ponta1 = Some 2,
           ponta2 = Some 2, moves = [(Obj 0, 0)], utility = 0\<rparr>)"
  by (simp add: result_def compute_utility_def Domino_moves_def igual_def
        ex_pass_def ex_h_simps passe_pedra_def Let_def)

text \<open>
  C3, as the code has it. When a transition with a tile (first pip not -1) returns, its
  marker is 4 if the mover is the searching player and the hand held one tile (it is empty
  after the move); -1 if the mover is not the searching player and the pool held three
  tiles (it holds two after the move); 0 otherwise.
\<close>

theorem placement_utility:
  assumes "fst (valor (deref h (fst mv))) \<noteq> -1"
    and "result h state mv player = Inr (h', state', res)"
  shows "utility res =
           (if to_move state = player
            then (if length (pedras state) = 1 then 4 else 0)
            else (if length (pedras_restantes state) = 3 then -1 else 0))
       \<and> (to_move state = player \<longrightarrow> length (pedras state) = Suc (length (pedras res)))
       \<and> (to_move state \<noteq> player \<longrightarrow>
            length (pedras_restantes state) = Suc (length (pedras_restantes res)))"
  using assms
  by (cases "fst mv")
     (auto simp: result_def compute_utility_def passe_pedra_def Let_def
           split: sum.splits if_splits prod.splits dest: list_remove_length)

lemma result_ex_last:
  "result ex_h ex_last (Obj 0, 0) 0 =
     Inr (orienta ex_h 0 1 1, ex_last,
          \<lparr>to_move = 1, pedras = [], pedras_restantes = [3, 4], ponta1 = Some 0,
           ponta2 = Some 1, moves = [(Passe, -1)], utility = 4\<rparr>)"
  by (simp add: result_def compute_utility_def coloca_def Domino_moves_def igual_def
        Pedra_eq_def ex_last_def ex_h_simps orienta_def set_position_def Let_def)

theorem placement_utility_witness:
  "\<exists>h' s' r. result ex_h ex_last (Obj 0, 0) 0 = Inr (h', s', r)
      \<and> to_move ex_last = 0 \<and> utility r = 4 \<and> pedras r = []"
  using placement_utility [OF _ result_ex_last] result_ex_last
  by (simp add: ex_last_def ex_h_simps)

text \<open>
  C3 as it is stated fails: here the mover is not the searching player and the pool is
  down to three tiles after the move, yet the marker is 0.
\<close>

theorem opponent_three_counterexample:
  "to_move ex_four = 1
   \<and> result ex_h ex_four (Obj 0, 0) 0 =
       Inr (orienta ex_h 0 0 2, ex_four,
            \<lparr>to_move = 2, pedras = [3], pedras_restantes = [4, 5, 6], ponta1 = Some 0,
             ponta2 = Some 2, moves = [(Passe, -1)], utility = 0\<rparr>)"
  by (simp add: result_def compute_utility_def coloca_def Domino_moves_def igual_def
        Pedra_eq_def ex_four_def ex_h_simps orienta_def set_position_def Let_def)

subsection \<open>What a transition writes\<close>

lemma set_position_valor: "valor (set_position h a v b) = valor (h b)"
  by (simp add: set_position_def)

lemma set_position_other: "b \<noteq> a \<Longrightarrow> set_position h a v b = h b"
  by (simp add: set_position_def)

lemma set_position_twice: "set_position (set_position h a v) a v = set_position h a v"
  by (simp add: set_position_def fun_eq_iff)

lemma orienta_valor: "valor (orienta h a c e1 b) = valor (h b)"
  by (simp add: orienta_def Let_def set_position_valor)

lemma orienta_other: "b \<noteq> a \<Longrightarrow> b \<noteq> e1 \<Longrightarrow> orienta h a c e1 b = h b"
  by (simp add: orienta_def Let_def set_position_other)

lemma orienta_again: "c \<noteq> -1 \<Longrightarrow> orienta (orienta h a c e1) a c e1 = orienta h a c e1"
  by (auto simp: orienta_def Let_def set_position_def fun_eq_iff)

lemma coloca_valor:
  "coloca h state a sel = Inr (h1, p1, p2) \<Longrightarrow> valor (h1 b) = valor (h b)"
  by (auto simp: coloca_def orienta_valor set_position_valor split: option.splits if_splits)

lemma coloca_other:
  "coloca h state a sel = Inr (h1, p1, p2) \<Longrightarrow> b \<noteq> a \<Longrightarrow> Some b \<noteq> ponta1 state \<Longrightarrow> h1 b = h b"
  by (auto simp: coloca_def orienta_other set_position_other split: option.splits if_splits)

text \<open>A second run of the writes, on the store that the first run left, changes nothing.\<close>

lemma coloca_again:
  assumes "coloca h state a sel = Inr (h1, p1, p2)"
  shows "coloca h1 state a sel = Inr (h1, p1, p2)"
proof (cases "ponta1 state")
  case None
  with assms show ?thesis
    by (auto simp: coloca_def set_position_twice)
next
  case e1: (Some e1)
  show ?thesis
  proof (cases "sel = 0")
    case True
    with assms show ?thesis
      by (auto simp: coloca_def e1 orienta_valor orienta_again split: if_splits)
  next
    case False
    note not0 = this
    show ?thesis
    proof (cases "sel = 1")
      case False
      with assms not0 show ?thesis
        by (auto simp: coloca_def e1)
    next
      case True
      show ?thesis
      proof (cases "ponta2 state")
        case None
        with assms True show ?thesis
          by (auto simp: coloca_def e1)
      next
        case (Some e2)
        with assms True show ?thesis
          by (auto simp: coloca_def e1 set_position_valor set_position_twice split: if_splits)
      qed
    qed
  qed
qed

lemma result_no_placement:
  assumes "fst (valor (deref h (fst mv))) = -1"
    and "result h state mv player = Inr (h', state', res)"
  shows "h' = h \<and> state'\<lparr>pedras_restantes := pedras_restantes state\<rparr> = state"
  using assms
  by (cases "fst mv") (auto simp: result_def Let_def split: sum.splits prod.splits)

lemma result_placement:
  assumes "fst mv = Obj a" and "fst (valor (h a)) \<noteq> -1"
  shows "result h state mv player =
     (case coloca h state a (snd mv) of
        Inl e \<Rightarrow> Inl e
      | Inr (h1, p1, p2) \<Rightarrow>
         (case list_remove h1 (if to_move state = player then pedras state
                               else pedras_restantes state) a of
            Inl e \<Rightarrow> Inl e
          | Inr xs \<Rightarrow>
             (case Domino_moves h1 ((to_move state + 1) mod 4)
                     (if to_move state = player then xs else pedras state)
                     (if to_move state = player then pedras_restantes state else xs)
                     p1 p2 player of
                Inl e \<Rightarrow> Inl e
              | Inr ms \<Rightarrow>
                 Inr (h1, state,
                      \<lparr>to_move = (to_move state + 1) mod 4,
                       pedras = (if to_move state = player then xs else pedras state),
                       pedras_restantes =
                         (if to_move state = player then pedras_restantes state else xs),
                       ponta1 = p1, ponta2 = p2, moves = ms,
                       utility = (if to_move state = player
                                  then (if length (pedras state) = 1 then 4 else 0)
                                  else (if length (pedras_restantes state) = 3 then -1 else 0))\<rparr>))))"
  using assms
  by (simp add: result_def compute_utility_placement Let_def split: sum.splits prod.splits)

text \<open>
  C1, as the code has it. When a transition returns: no tile has its pips changed; the
  only tiles written are the tile of the move and the tile at end 1 (their orientation);
  the argument state keeps its turn, hand, ends, move list and marker. If the move carries
  a tile (first pip not -1), the pool list of the argument state is as it was too. And
  whenever the call has left the argument state as it was, the same call made again, in
  the store that the first call left, returns the same successor and leaves that store as
  it is.
\<close>

theorem result_frame:
  assumes "result h state mv player = Inr (h', state', res)"
  shows "(\<forall>a. valor (h' a) = valor (h a))
       \<and> (\<forall>a. Obj a \<noteq> fst mv \<longrightarrow> Some a \<noteq> ponta1 state \<longrightarrow> h' a = h a)
       \<and> state'\<lparr>pedras_restantes := pedras_restantes state\<rparr> = state
       \<and> (fst (valor (deref h (fst mv))) \<noteq> -1 \<longrightarrow> state' = state)
       \<and> (state' = state \<longrightarrow> result h' state mv player = Inr (h', state, res))"
proof (cases "fst (valor (deref h (fst mv))) = -1")
  case True
  with assms show ?thesis
    using result_no_placement [of h mv state player h' state' res] by auto
next
  case False
  then obtain a where a: "fst mv = Obj a" "fst (valor (h a)) \<noteq> -1"
    by (cases "fst mv") (auto simp: passe_pedra_def)
  from assms obtain p1 p2 where c: "coloca h state a (snd mv) = Inr (h', p1, p2)"
    and st: "state' = state"
    by (auto simp: result_placement [where h = h, OF a] split: sum.splits prod.splits)
  have v: "\<And>b. valor (h' b) = valor (h b)"
    using c by (rule coloca_valor)
  have o: "\<And>b. b \<noteq> a \<Longrightarrow> Some b \<noteq> ponta1 state \<Longrightarrow> h' b = h b"
    using c by (rule coloca_other)
  have a': "fst (valor (h' a)) \<noteq> -1"
    using a v by simp
  have "result h' state mv player = result h state mv player"
    by (simp add: result_placement [where h = h, OF a]
          result_placement [where h = h', OF a(1) a'] coloca_again [OF c] c)
  with assms st v o a False show ?thesis
    by auto
qed

theorem result_frame_witness:
  "valor (orienta ex_h 0 1 1 0) = valor (ex_h 0)
   \<and> orienta ex_h 0 1 1 3 = ex_h 3
   \<and> result (orienta ex_h 0 1 1) ex_last (Obj 0, 0) 0 =
       Inr (orienta ex_h 0 1 1, ex_last,
            \<lparr>to_move = 1, pedras = [], pedras_restantes = [3, 4], ponta1 = Some 0,
             ponta2 = Some 1, moves = [(Passe, -1)], utility = 4\<rparr>)"
  using result_frame [OF result_ex_last]
  by (simp add: ex_last_def ex_h_simps)

text \<open>
  C1 as it is stated fails: the call writes the orientation of the tile (3,5), which the
  hand of the argument state holds, and of the tile (3,6), which is its end 1.
\<close>

theorem result_mutates_counterexample:
  "pedras ex_last = [0] \<and> ponta1 ex_last = Some 1
   \<and> result ex_h ex_last (Obj 0, 0) 0 =
       Inr (orienta ex_h 0 1 1, ex_last,
            \<lparr>to_move = 1, pedras = [], pedras_restantes = [3, 4], ponta1 = Some 0,
             ponta2 = Some 1, moves = [(Passe, -1)], utility = 4\<rparr>)
   \<and> position (ex_h 0) = -1 \<and> position (orienta ex_h 0 1 1 0) = 1
   \<and> position (ex_h 1) = -1 \<and> position (orienta ex_h 0 1 1 1) = 1"
  by (simp add: result_def compute_utility_def coloca_def Domino_moves_def igual_def
        Pedra_eq_def ex_last_def ex_h_simps orienta_def set_position_def Let_def)

text \<open>
  The pass of a blocked mover is the other way in which the call changes its argument: it
  sorts the pool list of the argument state in place, after the copy for the successor was
  taken. Made again, the call would copy the sorted list.
\<close>

lemma result_ex_blocked:
  "result ex_h ex_blocked (Passe, -1) 0 =
     Inr (ex_h, ex_blocked\<lparr>pedras_restantes := [3, 4]\<rparr>,
          \<lparr>to_move = 2, pedras = [5], pedras_restantes = [4, 3], ponta1 = Some 2,
           ponta2 = Some 2, moves = [(Passe, -1)], utility = -1\<rparr>)"
  by (simp add: result_def compute_utility_def Domino_moves_def igual_def
        ex_blocked_def ex_h_simps passe_pedra_def Let_def getValor_def)

lemma result_ex_blocked_again:
  "result ex_h (ex_blocked\<lparr>pedras_restantes := [3, 4]\<rparr>) (Passe, -1) 0 =
     Inr (ex_h, ex_blocked\<lparr>pedras_restantes := [3, 4]\<rparr>,
          \<lparr>to_move = 2, pedras = [5], pedras_restantes = [3, 4], ponta1 = Some 2,
           ponta2 = Some 2, moves = [(Passe, -1)], utility = -1\<rparr>)"
  by (simp add: result_def compute_utility_def Domino_moves_def igual_def
        ex_blocked_def ex_h_simps passe_pedra_def Let_def getValor_def)

subsection \<open>The chance model\<close>

text \<open>When seat 0 is to move there is one event, and its probability is 1.\<close>

lemma chances_seat0:
  "to_move state = 0 \<Longrightarrow>
   chances state = [(0, moves state, length (moves state), length (pedras state))]
   \<and> map probability (chances state) = [Inr 1]"
  by (simp add: chances_def probability_def)

lemma chances_other_seat:
  "to_move state \<noteq> 0 \<Longrightarrow>
   chances state =
     (if filter (\<lambda>m. snd m = 0) (moves state) \<noteq> []
      then [(1, filter (\<lambda>m. snd m = 0) (moves state), length (moves state),
             length (pedras_restantes state))] else [])
     @ (if filter (\<lambda>m. snd m = 1) (moves state) \<noteq> []
        then [(2, filter (\<lambda>m. snd m = 1) (moves state), length (moves state),
               length (pedras_restantes state))] else [])
     @ [(-1, [(Passe, -1)], length (moves state), length (pedras_restantes state))]"
  by (simp add: chances_def Let_def Domino_ponta1_def [abs_def] Domino_ponta2_def [abs_def])

text \<open>
  C4 at a state that the code receives when seat 1 searches. The state is seat 1's own
  turn, its move list is the one that \<open>moves\<close> generates for the searching player 1, and
  \<open>chances\<close>, which tests the turn against seat 0 and not against the searching player,
  returns two events, of probability one half each.
\<close>

theorem chances_seat1_example:
  "Domino_moves ex_h 1 (pedras ex_seat1) (pedras_restantes ex_seat1)
       (ponta1 ex_seat1) (ponta2 ex_seat1) 1 = Inr (moves ex_seat1)
   \<and> to_move ex_seat1 = 1
   \<and> chances ex_seat1 = [(1, [(Obj 0, 0)], 1, 2), (-1, [(Passe, -1)], 1, 2)]
   \<and> map probability (chances ex_seat1) = [Inr (1 / 2), Inr (1 / 2)]"
  by (simp add: chances_def probability_def Domino_moves_def igual_def ex_seat1_def ex_h_simps
        Domino_ponta1_def Domino_ponta2_def Let_def)

lemma length_three_filters:
  "length (filter (\<lambda>m. snd m = (0::int)) ms) + length (filter (\<lambda>m. snd m = 1) ms)
     + length (filter (\<lambda>m. snd m \<noteq> 0 \<and> snd m \<noteq> 1) ms) = length ms"
  by (induction ms) auto

lemma sum_three:
  fixes n :: real
  assumes "n \<noteq> 0" and "N = a + b + c"
  shows "a / n + b / n + (1 - N / n) = 1 - c / n"
  using assms by (simp add: field_simps)

text \<open>
  The probabilities of the events of a seat other than 0, over a nonempty pool, add up to
  1 minus the share of the moves whose end selector is neither 0 nor 1: they add up to 1
  exactly when the move list holds no pass and no free placement.
\<close>

lemma chances_probability_sum:
  assumes "to_move state \<noteq> 0" and "pedras_restantes state \<noteq> []"
  shows "\<exists>ps. map probability (chances state) = map Inr ps
     \<and> sum_list ps = 1 - real (length (filter (\<lambda>m. snd m \<noteq> 0 \<and> snd m \<noteq> 1) (moves state)))
                           / real (length (pedras_restantes state))"
proof -
  let ?n = "real (length (pedras_restantes state))"
  let ?a = "length (filter (\<lambda>m. snd m = (0::int)) (moves state))"
  let ?b = "length (filter (\<lambda>m. snd m = (1::int)) (moves state))"
  let ?c = "length (filter (\<lambda>m. snd m \<noteq> 0 \<and> snd m \<noteq> 1) (moves state))"
  let ?ps = "(if 0 < ?a then [real ?a / ?n] else []) @ (if 0 < ?b then [real ?b / ?n] else [])
              @ [1 - real (length (moves state)) / ?n]"
  have n: "?n \<noteq> 0" using assms(2) by simp
  have m: "map probability (chances state) = map Inr ?ps"
    using assms(2) by (simp add: chances_other_seat [OF assms(1)] probability_def)
  have N: "real (length (moves state)) = real ?a + real ?b + real ?c"
    using length_three_filters [of "moves state"] by linarith
  have "sum_list ?ps = real ?a / ?n + real ?b / ?n + (1 - real (length (moves state)) / ?n)"
    by simp
  also have "\<dots> = 1 - real ?c / ?n"
    using n N by (rule sum_three)
  finally show ?thesis using m by blast
qed

text \<open>
  C6 at a state where seat 1 is to move, seat 0 searches and no tile of the pool of three
  matches an end. The move list that \<open>moves\<close> generates is the pass alone, \<open>chances\<close>
  returns the no-match event alone, and its probability is 1 - 1/3: the pass entry is
  counted as a matching move. The probabilities add up to 2/3, and 1 minus the sum of the
  match probabilities (there are none) would be 1.
\<close>

theorem chances_nomatch_example:
  "Domino_moves ex_h 1 (pedras ex_nomatch) (pedras_restantes ex_nomatch)
       (ponta1 ex_nomatch) (ponta2 ex_nomatch) 0 = Inr (moves ex_nomatch)
   \<and> to_move ex_nomatch = 1
   \<and> chances ex_nomatch = [(-1, [(Passe, -1)], 1, 3)]
   \<and> map probability (chances ex_nomatch) = [Inr (2 / 3)]"
  by (simp add: chances_def probability_def Domino_moves_def igual_def ex_nomatch_def ex_h_simps
        Domino_ponta1_def Domino_ponta2_def Let_def)

subsection \<open>The evaluation heuristic\<close>

lemma Domino_moves_total:
  assumes "p1 = None \<or> p2 \<noteq> None"
  shows "\<exists>ms. Domino_moves h tm hand pool p1 p2 player = Inr ms"
proof (cases p1)
  case None
  then show ?thesis by (simp add: Domino_moves_unset)
next
  case (Some e1)
  with assms obtain e2 where "p2 = Some e2" by auto
  with Some show ?thesis by (simp add: Domino_moves_ends)
qed

lemma Domino_moves_no_pass:
  assumes "Domino_moves h tm hand pool p1 p2 player = Inr ms"
    and "p1 = None \<or> p2 \<noteq> None" and "(Passe, -1) \<notin> set ms"
  shows "filter (\<lambda>m. fst m \<noteq> Passe) ms = ms"
proof (cases p1)
  case None
  with assms(1,3) show ?thesis by (auto simp: Domino_moves_unset)
next
  case (Some e1)
  with assms(2) obtain e2 where e2: "p2 = Some e2" by auto
  let ?js = "jogadas h e1 e2 (if tm = player then hand else pool)"
  from assms(1) Some e2 have ms: "ms = (if ?js = [] then [(Passe, -1)] else ?js)"
    by (simp add: Domino_moves_ends Let_def)
  with assms(3) have "ms = ?js" by (auto split: if_splits)
  with jogadas_no_pass [of h e1 e2 "if tm = player then hand else pool"] show ?thesis
    by simp
qed

text \<open>
  C10, as the code has it. On a state whose ends are both unset or both set the heuristic
  returns without an error for every seat. For a seat other than 0, 1 and 2, seat 3 among
  them, it returns \<open>None\<close>. For seat 0 it returns the weighted combination of doubles,
  hand size, deficit and pip sum. For the seats 1 and 2 it returns their combinations, with
  the mobility the number of moves in the list that \<open>moves\<close> generates for the searching
  player, whenever that list holds no pass entry.
\<close>

theorem eval_profiles:
  assumes "ponta1 state = None \<or> ponta2 state \<noteq> None"
  shows "\<exists>ms v. Domino_moves h player (pedras state) (pedras_restantes state)
                 (ponta1 state) (ponta2 state) player = Inr ms
    \<and> eval h state player = Inr v
    \<and> (let doubles = real_of_int (buchas h (pedras state));
            hand_size = real (length (pedras state));
            deficit = real (length (pedras_restantes state)) / 3 - hand_size;
            pip_sum = real_of_int (soma_pedras_max h state);
            mobility = real (length (filter (\<lambda>m. fst m \<noteq> Passe) ms));
            diversity = real (checa_diversidade_max h state)
        in (player = 0 \<longrightarrow>
              v = PNum (Fin (- 0.9 * doubles - 0.2 * hand_size + 0.7 * deficit - 0.4 * pip_sum)))
         \<and> (player = 1 \<and> (Passe, -1) \<notin> set ms \<longrightarrow>
              v = PNum (Fin (0.5 * mobility + 0.6 * diversity)))
         \<and> (player = 2 \<and> (Passe, -1) \<notin> set ms \<longrightarrow>
              v = PNum (Fin (- 0.9 * doubles - 0.2 * hand_size + 0.7 * deficit + 0.5 * mobility
                             - 0.4 * pip_sum + 0.6 * diversity)))
         \<and> (player \<noteq> 0 \<and> player \<noteq> 1 \<and> player \<noteq> 2 \<longrightarrow> v = PNone))"
proof -
  from Domino_moves_total [OF assms] obtain ms where
    ms: "Domino_moves h player (pedras state) (pedras_restantes state)
       (ponta1 state) (ponta2 state) player = Inr ms"
    by blast
  have f: "(Passe, -1) \<notin> set ms \<Longrightarrow> filter (\<lambda>m. fst m \<noteq> Passe) ms = ms"
    using Domino_moves_no_pass [OF ms assms] by simp
  let ?seat0 = "- 0.9 * real_of_int (buchas h (pedras state))
                - 0.2 * real (length (pedras state))
                + 0.7 * (real (length (pedras_restantes state)) / 3
                         - real (length (pedras state)))
                - 0.4 * real_of_int (soma_pedras_max h state)"
  let ?seat1 = "0.5 * real (length ms) + 0.6 * real (checa_diversidade_max h state)"
  let ?seat2 = "- 0.9 * real_of_int (buchas h (pedras state))
                - 0.2 * real (length (pedras state))
                + 0.7 * (real (length (pedras_restantes state)) / 3
                         - real (length (pedras state)))
                + 0.5 * real (length ms)
                - 0.4 * real_of_int (soma_pedras_max h state)
                + 0.6 * real (checa_diversidade_max h state)"
  let ?v = "if player = 0 then PNum (Fin ?seat0)
            else if player = 1 then PNum (Fin ?seat1)
            else if player = 2 then PNum (Fin ?seat2) else PNone"
  have v: "eval h state player = Inr ?v"
    using ms by (simp add: eval_def Let_def)
  have "(player = 0 \<longrightarrow> ?v = PNum (Fin ?seat0))
      \<and> (player = 1 \<and> (Passe, -1) \<notin> set ms \<longrightarrow>
            ?v = PNum (Fin (0.5 * real (length (filter (\<lambda>m. fst m \<noteq> Passe) ms))
                           + 0.6 * real (checa_diversidade_max h state))))
      \<and> (player = 2 \<and> (Passe, -1) \<notin> set ms \<longrightarrow>
            ?v = PNum (Fin (- 0.9 * real_of_int (buchas h (pedras state))
                         - 0.2 * real (length (pedras state))
                         + 0.7 * (real (length (pedras_restantes state)) / 3
                                  - real (length (pedras state)))
                         + 0.5 * real (length (filter (\<lambda>m. fst m \<noteq> Passe) ms))
                         - 0.4 * real_of_int (soma_pedras_max h state)
                         + 0.6 * real (checa_diversidade_max h state))))
      \<and> (player \<noteq> 0 \<and> player \<noteq> 1 \<and> player \<noteq> 2 \<longrightarrow> ?v = PNone)"
    using f by auto
  with ms v show ?thesis
    unfolding Let_def by blast
qed

theorem eval_profiles_witness:
  "eval ex_h ex_last 3 = Inr PNone \<and> eval ex_h ex_last 2 = Inr (PNum (Fin (- 29 / 15)))"
proof -
  have e: "ponta1 ex_last = None \<or> ponta2 ex_last \<noteq> None"
    by (simp add: ex_last_def)
  have m: "\<And>p. Domino_moves ex_h p (pedras ex_last) (pedras_restantes ex_last)
             (ponta1 ex_last) (ponta2 ex_last) p = Inr [(Obj 0, 0)]"
    by (simp add: Domino_moves_def igual_def ex_last_def ex_h_simps)
  from eval_profiles [OF e, of ex_h 3] m [of 3] have "eval ex_h ex_last 3 = Inr PNone"
    by auto
  moreover from eval_profiles [OF e, of ex_h 2] m [of 2]
  have "eval ex_h ex_last 2 = Inr (PNum (Fin (- 29 / 15)))"
    by (auto simp: Let_def ex_last_def ex_h_simps
        buchas_def soma_pedras_max_def checa_diversidade_max_def getValor_def)
  ultimately show ?thesis by simp
qed

text \<open>
  A state with end 1 set and end 2 unset, which no function of the program builds, makes
  the call of \<open>moves\<close> inside the heuristic raise AttributeError, for any seat.
\<close>

lemma eval_one_end_example:
  "eval ex_h (ex_blocked\<lparr>ponta2 := None\<rparr>) 3 = Inl AttributeError"
  by (simp add: eval_def Domino_moves_def igual_def ex_blocked_def ex_h_simps Let_def)

text \<open>
  C10 as it is stated fails: for seat 3 the heuristic raises nothing, it returns \<open>None\<close>.
\<close>

theorem eval_seat3_counterexample:
  "eval ex_h ex_last 3 = Inr PNone"
  by (simp add: eval_def Domino_moves_def igual_def ex_last_def ex_h_simps Let_def)

subsection \<open>The count of the tiles\<close>

lemma length_cria_domino: "length cria_domino = 28"
  by (simp add: cria_domino_def)

lemma list_pop_length:
  "list_pop xs i = Inr (x, ys) \<Longrightarrow> length xs = Suc (length ys)"
  by (auto simp: list_pop_def Let_def split: if_splits)

lemma escolhe_mao_length:
  "escolhe_mao rnd t ps k = Inr (mao, resto) \<Longrightarrow>
   length mao = k \<and> length ps = k + length resto"
proof (induction k arbitrary: t ps mao resto)
  case 0
  then show ?case by simp
next
  case (Suc k)
  from Suc.prems obtain x ps' mao' where
    p: "list_pop ps (rnd t - 1) = Inr (x, ps')"
    and r: "escolhe_mao rnd (Suc t) ps' k = Inr (mao', resto)"
    and m: "mao = x # mao'"
    by (auto split: sum.splits prod.splits)
  from Suc.IH [OF r] list_pop_length [OF p] m show ?case by simp
qed

text \<open>The initial state has seven tiles in the hand and twenty-one in the pool.\<close>

lemma Domino_init_sizes:
  assumes "Domino_init rnd = Inr (h, s)"
  shows "length (pedras s) = 7 \<and> length (pedras_restantes s) = 21"
proof -
  from assms obtain j0 j1 j2 j3 r0 r1 r2 r3 where
    e0: "escolhe_mao rnd 0 [0..<length cria_domino] 7 = Inr (j0, r0)"
    and e1: "escolhe_mao rnd 7 r0 7 = Inr (j1, r1)"
    and e2: "escolhe_mao rnd 14 r1 7 = Inr (j2, r2)"
    and e3: "escolhe_mao rnd 21 r2 7 = Inr (j3, r3)"
    and s: "pedras s = j0" "pedras_restantes s = j1 @ j2 @ j3"
    by (auto simp: Domino_init_def escolhe_pedras_def split: sum.splits prod.splits)
  from escolhe_mao_length [OF e0] escolhe_mao_length [OF e1] escolhe_mao_length [OF e2]
    escolhe_mao_length [OF e3] s
  show ?thesis by simp
qed

lemma list_pop_ok:
  assumes "xs \<noteq> []" and "0 \<le> r" and "r \<le> int (length xs)"
  shows "\<exists>x ys. list_pop xs (r - 1) = Inr (x, ys)"
proof (cases xs)
  case Nil
  with assms(1) show ?thesis by simp
next
  case (Cons y ys)
  with assms(2,3) show ?thesis
    by (auto simp: list_pop_def Let_def)
qed

lemma escolhe_mao_ok:
  assumes "k \<le> length ps"
    and "\<forall>i<k. 0 \<le> rnd (t + i) \<and> rnd (t + i) \<le> int (length ps) - int i"
  shows "\<exists>mao resto. escolhe_mao rnd t ps k = Inr (mao, resto)"
  using assms
proof (induction k arbitrary: t ps)
  case 0
  then show ?case by simp
next
  case (Suc k)
  from Suc.prems have ne: "ps \<noteq> []" by auto
  from Suc.prems(2) have "0 \<le> rnd t \<and> rnd t \<le> int (length ps)"
    by (metis add.right_neutral diff_zero of_nat_0 zero_less_Suc)
  with ne obtain x ps' where p: "list_pop ps (rnd t - 1) = Inr (x, ps')"
    using list_pop_ok by blast
  have l: "length ps = Suc (length ps')" using p by (rule list_pop_length)
  have "\<forall>i<k. 0 \<le> rnd (Suc t + i) \<and> rnd (Suc t + i) \<le> int (length ps') - int i"
  proof (intro allI impI)
    fix i assume "i < k"
    then have "Suc i < Suc k" by simp
    with Suc.prems(2)
    have "0 \<le> rnd (t + Suc i) \<and> rnd (t + Suc i) \<le> int (length ps) - int (Suc i)"
      by blast
    with l show "0 \<le> rnd (Suc t + i) \<and> rnd (Suc t + i) \<le> int (length ps') - int i"
      by simp
  qed
  moreover from Suc.prems(1) l have "k \<le> length ps'" by simp
  ultimately obtain mao resto where "escolhe_mao rnd (Suc t) ps' k = Inr (mao, resto)"
    using Suc.IH by blast
  with p show ?case by simp
qed

text \<open>
  Every run of the random source gives an initial state: the \<open>t\<close>-th call of
  \<open>randint(0, n)\<close> is made with \<open>n = 28 - t\<close> and returns a value from 0 to \<open>n\<close>.
\<close>

lemma Domino_init_ok:
  assumes "\<forall>t<28. 0 \<le> rnd t \<and> rnd t \<le> 28 - int t"
  shows "\<exists>h s. Domino_init rnd = Inr (h, s)"
proof -
  have d: "\<And>t ps. t + length ps = 28 \<Longrightarrow> 7 \<le> length ps \<Longrightarrow>
            \<exists>mao resto. escolhe_mao rnd t ps 7 = Inr (mao, resto)"
  proof -
    fix t :: nat and ps :: "nat list"
    assume l: "t + length ps = 28" and k: "7 \<le> length ps"
    have "\<forall>i<7. 0 \<le> rnd (t + i) \<and> rnd (t + i) \<le> int (length ps) - int i"
    proof (intro allI impI)
      fix i :: nat assume "i < 7"
      with l k have "t + i < 28" by simp
      with assms have "0 \<le> rnd (t + i) \<and> rnd (t + i) \<le> 28 - int (t + i)" by blast
      with l show "0 \<le> rnd (t + i) \<and> rnd (t + i) \<le> int (length ps) - int i" by simp
    qed
    with k show "\<exists>mao resto. escolhe_mao rnd t ps 7 = Inr (mao, resto)"
      by (rule escolhe_mao_ok)
  qed
  from d [of 0 "[0..<length cria_domino]"] obtain j0 r0 where
    e0: "escolhe_mao rnd 0 [0..<length cria_domino] 7 = Inr (j0, r0)"
    by (auto simp: length_cria_domino)
  from escolhe_mao_length [OF e0] have l0: "length r0 = 21"
    by (simp add: length_cria_domino)
  from d [of 7 r0] l0 obtain j1 r1 where e1: "escolhe_mao rnd 7 r0 7 = Inr (j1, r1)"
    by auto
  from escolhe_mao_length [OF e1] l0 have l1: "length r1 = 14" by simp
  from d [of 14 r1] l1 obtain j2 r2 where e2: "escolhe_mao rnd 14 r1 7 = Inr (j2, r2)"
    by auto
  from escolhe_mao_length [OF e2] l1 have l2: "length r2 = 7" by simp
  from d [of 21 r2] l2 obtain j3 r3 where e3: "escolhe_mao rnd 21 r2 7 = Inr (j3, r3)"
    by auto
  from e0 e1 e2 e3 show ?thesis
    by (simp add: Domino_init_def escolhe_pedras_def Domino_moves_unset)
qed

lemma compute_utility_length:
  "compute_utility h tm hand pool p1 p2 mv player = Inr (pool', u) \<Longrightarrow>
   length pool' = length pool"
  by (auto simp: compute_utility_def Let_def split: if_splits sum.splits bool.splits)

lemma result_sizes:
  assumes "result h s mv player = Inr (h', s', r)"
  shows "length (pedras r) + length (pedras_restantes r)
           + (if fst (valor (deref h (fst mv))) \<noteq> -1 then 1 else 0)
         = length (pedras s) + length (pedras_restantes s)
       \<and> length (pedras s') = length (pedras s)
       \<and> length (pedras_restantes s') = length (pedras_restantes s)"
  using assms
  by (cases "fst mv")
     (auto simp: result_def Let_def passe_pedra_def
           split: sum.splits prod.splits if_splits
           dest: list_remove_length compute_utility_length)

lemma outcome_sizes:
  "pedras (outcome s c) = pedras s \<and> pedras_restantes (outcome s c) = pedras_restantes s"
  by (simp add: outcome_def)

text \<open>
  C9. In every state reachable from an initial deal, the tiles of the hand, the tiles of
  the pool and the tiles played add up to 28; and every transition that returns takes
  exactly one tile out of the hand and the pool together when its move carries a tile,
  and none when it is a pass.
\<close>

theorem tiles_add_up:
  "(reachable s k \<longrightarrow> length (pedras s) + length (pedras_restantes s) + k = 28)
   \<and> (result h s mv player = Inr (h', s', r) \<longrightarrow>
        length (pedras r) + length (pedras_restantes r)
          + (if fst (valor (deref h (fst mv))) \<noteq> -1 then 1 else 0)
        = length (pedras s) + length (pedras_restantes s))"
proof (intro conjI impI)
  assume "reachable s k"
  then show "length (pedras s) + length (pedras_restantes s) + k = 28"
  proof (induction rule: reachable.induct)
    case (initial rnd h s)
    then show ?case using Domino_init_sizes by fastforce
  next
    case (placed s k h mv player h' s' r)
    with result_sizes [OF placed(2)] show ?case by simp
  next
    case (passed s k h mv player h' s' r)
    with result_sizes [OF passed(2)] show ?case by simp
  next
    case (argument s k h mv player h' s' r)
    with result_sizes [OF argument(2)] show ?case by simp
  next
    case (revealed s k c)
    then show ?case by (simp add: outcome_sizes)
  qed
next
  assume "result h s mv player = Inr (h', s', r)"
  then show "length (pedras r) + length (pedras_restantes r)
          + (if fst (valor (deref h (fst mv))) \<noteq> -1 then 1 else 0)
        = length (pedras s) + length (pedras_restantes s)"
    using result_sizes by blast
qed

lemma Domino_init_ex: "map_sum id snd (Domino_init (\<lambda>_. 0)) = Inr ex_init"
  by code_simp

lemma result_ex_init:
  "map_sum id (snd \<circ> snd) (result heap_inicial ex_init (Obj 27, -1) 0) = Inr ex_first"
  by code_simp

lemma reachable_ex_first: "reachable ex_first 1"
proof -
  from Domino_init_ex obtain h where "Domino_init (\<lambda>_. 0) = Inr (h, ex_init)"
    by (cases "Domino_init (\<lambda>_. 0)") auto
  then have i: "reachable ex_init 0"
    by (rule reachable.initial)
  from result_ex_init obtain h' s' where
    r: "result heap_inicial ex_init (Obj 27, -1) 0 = Inr (h', s', ex_first)"
    by (cases "result heap_inicial ex_init (Obj 27, -1) 0") auto
  have "fst (valor (deref heap_inicial (fst (Obj 27, -1::int)))) \<noteq> -1"
    by code_simp
  with i r have "reachable ex_first (Suc 0)"
    by (rule reachable.placed)
  then show ?thesis by simp
qed

theorem tiles_add_up_witness:
  "reachable ex_first 1
   \<and> length (pedras ex_first) = 6 \<and> length (pedras_restantes ex_first) = 21
   \<and> length (pedras ex_first) + length (pedras_restantes ex_first) + 1 = 28"
  using tiles_add_up [of ex_first 1] reachable_ex_first
  by (simp add: ex_first_def)

subsection \<open>The search\<close>

lemma chance_loop_event_values:
  "chance_loop d player h res cs depth s =
     (case event_values d player h res cs depth of
        Inl e \<Rightarrow> Inl e
      | Inr (h', res', ts) \<Rightarrow>
          Inr (h', res', foldl num_plus s (map (\<lambda>(u, p). num_times u p) ts)))"
proof (induction cs arbitrary: h res s)
  case Nil
  then show ?case by simp
next
  case (Cons c cs)
  show ?case
    by (simp add: Cons.IH split: sum.splits prod.splits pyval.splits)
qed

lemma event_values_probability:
  "event_values d player h res cs depth = Inr (h', res', ts) \<Longrightarrow>
   map (\<lambda>(u, p). Inr p) ts = map probability cs"
proof (induction cs arbitrary: h res ts)
  case Nil
  then show ?case by simp
next
  case (Cons c cs)
  from Cons.prems obtain h1 res1 u p ts' where
    p: "probability c = Inr p"
    and r: "event_values d player h1 res1 cs depth = Inr (h', res', ts')"
    and t: "ts = (u, p) # ts'"
    by (auto split: sum.splits prod.splits pyval.splits)
  from Cons.IH [OF r] p t show ?case by simp
qed

lemma num_div_Fin: "n \<noteq> 0 \<Longrightarrow> num_div (Fin a) n = Inr (Fin (a / real n))"
  by (cases n) simp_all

lemma foldl_num_plus_Fin:
  "foldl num_plus (Fin s) (map (\<lambda>(u, p). num_times u p) (map (\<lambda>(u, p). (Fin u, p)) us))
     = Fin (s + sum_list (map (\<lambda>(u, p). u * p) us))"
  by (induction us arbitrary: s) (auto simp: algebra_simps)

lemma sum_chances_Fin:
  assumes "n \<noteq> 0"
  shows "num_div (foldl num_plus (Fin 0)
                   (map (\<lambda>(u, p). num_times u p) (map (\<lambda>(u, p). (Fin u, p)) us))) n
         = Inr (Fin (sum_list (map (\<lambda>(u, p). u * p) us) / real n))"
  unfolding foldl_num_plus_Fin using assms by (simp add: num_div_Fin)

lemma chances_nonempty: "chances state \<noteq> []"
  by (simp add: chances_def Let_def)

text \<open>
  C5. Let the transition return a successor that is not terminal, at a depth below the
  limit. Then \<open>chance_node\<close> fails where the recursion into an event fails, and otherwise
  its value is the sum, over the events in their order, of the value of the event times
  its probability, divided by the number of events. When the values are finite, that is
  the real number \<open>(\<Sum> u * p) / n\<close> for the \<open>n\<close> events, whatever their
  probabilities add up to. The value \<open>u\<close> of an event is what \<open>max_value\<close> returns at the
  next depth when the mover of the successor is the searching player, and what
  \<open>min_value\<close> returns otherwise (\<open>event_values\<close>), and \<open>p\<close> is what \<open>probability\<close>
  returns for the event.
\<close>

theorem chance_node_value:
  assumes "result h state action player = Inr (h1, state1, res)"
    and "\<not> terminal_test res" and "depth < d"
  shows "chance_node d player h state action depth =
           (case event_values d player h1 res (chances res) depth of
              Inl e \<Rightarrow> Inl e
            | Inr (h2, res2, ts) \<Rightarrow>
                (case num_div (foldl num_plus (Fin 0) (map (\<lambda>(u, p). num_times u p) ts))
                        (length (chances res)) of
                   Inl e \<Rightarrow> Inl e
                 | Inr v \<Rightarrow> Inr (h2, state1, PNum v)))
       \<and> (\<forall>h2 res2 us.
            event_values d player h1 res (chances res) depth
              = Inr (h2, res2, map (\<lambda>(u, p). (Fin u, p)) us) \<longrightarrow>
            map (\<lambda>(u, p). Inr p) us = map probability (chances res)
            \<and> chance_node d player h state action depth =
                Inr (h2, state1,
                     PNum (Fin (sum_list (map (\<lambda>(u, p). u * p) us)
                                / real (length (chances res))))))"
proof -
  have eq: "chance_node d player h state action depth =
           (case event_values d player h1 res (chances res) depth of
              Inl e \<Rightarrow> Inl e
            | Inr (h2, res2, ts) \<Rightarrow>
                (case num_div (foldl num_plus (Fin 0) (map (\<lambda>(u, p). num_times u p) ts))
                        (length (chances res)) of
                   Inl e \<Rightarrow> Inl e
                 | Inr v \<Rightarrow> Inr (h2, state1, PNum v)))"
    using assms
    by (simp add: chance_node.simps chance_loop_event_values split: sum.splits prod.splits)
  have fin: "map (\<lambda>(u, p). Inr p) us = map probability (chances res)
            \<and> chance_node d player h state action depth =
                Inr (h2, state1,
                     PNum (Fin (sum_list (map (\<lambda>(u, p). u * p) us)
                                / real (length (chances res)))))"
    if ev: "event_values d player h1 res (chances res) depth
              = Inr (h2, res2, map (\<lambda>(u, p). (Fin u, p)) us)"
    for h2 res2 us
  proof -
    have "map (\<lambda>(u, p). Inr p) (map (\<lambda>(u, p). (Fin u, p)) us) = map probability (chances res)"
      using ev by (rule event_values_probability)
    then have p: "map (\<lambda>(u, p). Inr p) us = map probability (chances res)"
      by (simp add: case_prod_unfold comp_def)
    have "length (chances res) \<noteq> 0"
      using chances_nonempty by simp
    then have "num_div (foldl num_plus (Fin 0)
                   (map (\<lambda>(u, p). num_times u p) (map (\<lambda>(u, p). (Fin u, p)) us)))
                 (length (chances res))
         = Inr (Fin (sum_list (map (\<lambda>(u, p). u * p) us) / real (length (chances res))))"
      by (rule sum_chances_Fin)
    with p show ?thesis
      by (simp only: eq ev sum.case prod.case simp_thms)
  qed
  from eq fin show ?thesis by blast
qed

lemma result_ex_two:
  "result ex_h ex_two (Obj 0, 0) 0 = Inr (orienta ex_h 0 0 2, ex_two, ex_two_res)"
  by (simp add: result_def compute_utility_def coloca_def Domino_moves_def igual_def
        Pedra_eq_def ex_two_def ex_two_res_def ex_h_simps orienta_def set_position_def Let_def)

lemma event_values_ex_two:
  "event_values 2 0 (orienta ex_h 0 0 2) ex_two_res (chances ex_two_res) 1 =
     Inr (orienta ex_h 0 0 2, ex_two_res\<lparr>moves := [(Passe, -1)]\<rparr>,
          map (\<lambda>(u, p). (Fin u, p)) [(- 18 / 5, 1 / 3), (- 18 / 5, 2 / 3)])"
  by (simp add: chances_def probability_def outcome_def eval_def Domino_moves_def igual_def
        ex_two_res_def ex_h_simps orienta_def set_position_def Let_def min_value.simps
        Domino_ponta1_def Domino_ponta2_def
        buchas_def soma_pedras_max_def checa_diversidade_max_def getValor_def)

text \<open>
  Two events, of probability 1/3 and 2/3, each of value -18/5: the value of the chance
  node is -9/5, the sum -18/5 divided by the two events.
\<close>

theorem chance_node_value_witness:
  "map probability (chances ex_two_res) = [Inr (1 / 3), Inr (2 / 3)]
   \<and> chance_node 2 0 ex_h ex_two (Obj 0, 0) 1 =
       Inr (orienta ex_h 0 0 2, ex_two, PNum (Fin (- 9 / 5)))"
proof -
  have t: "\<not> terminal_test ex_two_res"
    by (simp add: terminal_test_def ex_two_res_def)
  have l: "length (chances ex_two_res) = 2"
    by (simp add: chances_def ex_two_res_def Let_def Domino_ponta1_def Domino_ponta2_def)
  have d: "(1::nat) < 2" by simp
  from chance_node_value [OF result_ex_two t d, THEN conjunct2, rule_format,
      OF event_values_ex_two] l
  show ?thesis by simp
qed

text \<open>
  C7. \<open>expectiminimax\<close> searches with the depth limit 7 for a hand of 6 or 7 tiles, 5
  for a hand of 4 or 5 tiles and 9 for any other hand (so 7 for seven tiles and 9 for
  three), from the seat of the mover of the state. At or beyond the limit \<open>max_value\<close>
  and \<open>min_value\<close> return what the evaluation heuristic returns for their state, and
  \<open>chance_node\<close>, for a successor that is not terminal, what it returns for the state the
  move was made from; none of them looks at a move or an event.
\<close>

theorem depth_policy:
  "expectiminimax argmax h state =
     argmax (actions state)
       (\<lambda>h' state' a.
          chance_node (if length (pedras state) = 6 \<or> length (pedras state) = 7 then 7
                       else if length (pedras state) = 4 \<or> length (pedras state) = 5 then 5
                       else 9)
            (to_move state) h' state' a 1)
       h state
   \<and> depth_limit 7 = 7 \<and> depth_limit 3 = 9
   \<and> (d \<le> depth \<longrightarrow>
        max_value d player h state depth =
          (case eval h state player of Inl e \<Rightarrow> Inl e | Inr v \<Rightarrow> Inr (h, state, v))
        \<and> min_value d player h state depth =
          (case eval h state player of Inl e \<Rightarrow> Inl e | Inr v \<Rightarrow> Inr (h, state, v)))
   \<and> (d \<le> depth \<longrightarrow> result h state a player = Inr (h1, state1, res) \<longrightarrow>
        \<not> terminal_test res \<longrightarrow>
        chance_node d player h state a depth =
          (case eval h1 state1 player of Inl e \<Rightarrow> Inl e | Inr v \<Rightarrow> Inr (h1, state1, v)))"
proof -
  have "depth_limit (length (pedras state)) =
          (if length (pedras state) = 6 \<or> length (pedras state) = 7 then 7
           else if length (pedras state) = 4 \<or> length (pedras state) = 5 then 5 else 9)"
    by (simp add: depth_limit_def)
  then have "expectiminimax argmax h state =
     argmax (actions state)
       (\<lambda>h' state' a.
          chance_node (if length (pedras state) = 6 \<or> length (pedras state) = 7 then 7
                       else if length (pedras state) = 4 \<or> length (pedras state) = 5 then 5
                       else 9)
            (to_move state) h' state' a 1)
       h state"
    by (simp only: expectiminimax_def Game_to_move_def Let_def)
  moreover have "depth_limit 7 = 7 \<and> depth_limit 3 = 9"
    by (simp add: depth_limit_def)
  ultimately show ?thesis
    by (simp add: max_value.simps min_value.simps chance_node.simps)
qed

theorem depth_policy_witness:
  "max_value 7 0 ex_h ex_two 7 = Inr (ex_h, ex_two, PNum (Fin (- 77 / 10)))
   \<and> chance_node 7 0 ex_h ex_two (Obj 0, 0) 7 =
       Inr (orienta ex_h 0 0 2, ex_two, PNum (Fin (- 77 / 10)))"
proof -
  have e: "eval ex_h ex_two 0 = Inr (PNum (Fin (- 77 / 10)))"
    by (simp add: eval_def Domino_moves_def igual_def ex_two_def ex_h_simps Let_def
        buchas_def soma_pedras_max_def checa_diversidade_max_def getValor_def)
  have e': "eval (orienta ex_h 0 0 2) ex_two 0 = Inr (PNum (Fin (- 77 / 10)))"
    by (simp add: eval_def Domino_moves_def igual_def ex_two_def ex_h_simps Let_def
        orienta_def set_position_def
        buchas_def soma_pedras_max_def checa_diversidade_max_def getValor_def)
  have t: "\<not> terminal_test ex_two_res"
    by (simp add: terminal_test_def ex_two_res_def)
  note dp = depth_policy [where d = 7 and depth = 7 and h = ex_h and state = ex_two
      and player = 0 and a = "(Obj 0, 0)" and ?h1.0 = "orienta ex_h 0 0 2"
      and ?state1.0 = ex_two and res = ex_two_res, THEN conjunct2, THEN conjunct2, THEN conjunct2]
  from dp e e' t result_ex_two show ?thesis by simp
qed

end
